theory Spec2Isabelle
  imports Main "HOL-Library.AList"
begin

section \<open>The Bluetooth channel service of GSConnect (src/service/protocol/bluetooth.js)\<close>

text \<open>
  A shallow embedding of the class \<open>ChannelService\<close>. The fields of the object are a
  record that every method takes and returns; a JavaScript name that starts with an
  underscore is written with the prefix \<open>u_\<close> (\<open>this._devices\<close> is \<open>u_devices\<close>,
  \<open>_connectDevice\<close> is \<open>u_connectDevice\<close>). Everything a method does to the world
  outside the object (bus calls, signal connections, log lines, calls to the multiplexer
  and to the device manager) is appended to a list of effects, in program order. What the
  world answers (whether a bus call resolves or rejects, what negotiation returns) is read
  from a record of outcomes, so every \<open>catch\<close> block of the source is a branch of the
  model.

  A handler is run to its end, except \<open>_onInterfacesAdded\<close>, which is also given in
  two parts, before and after its \<open>await\<close>, so that other events can be placed between
  them.
\<close>

subsection \<open>JavaScript values that the guards look at\<close>

datatype jsval = JSNull | JSUndefined | JSBool bool | JSString string

text \<open>ToBoolean: \<open>null\<close>, \<open>undefined\<close>, \<open>false\<close> and the empty string are falsy.\<close>

fun truthy :: "jsval \<Rightarrow> bool" where
  "truthy JSNull = False"
| "truthy JSUndefined = False"
| "truthy (JSBool b) = b"
| "truthy (JSString s) = (s \<noteq> [])"

text \<open>The operator \<open>!\<close> always yields a boolean.\<close>

definition js_not :: "jsval \<Rightarrow> jsval" where
  "js_not v = JSBool (\<not> truthy v)"

text \<open>The operator \<open>===\<close>: operands of different types are never equal.\<close>

fun strict_equals :: "jsval \<Rightarrow> jsval \<Rightarrow> bool" where
  "strict_equals JSNull JSNull = True"
| "strict_equals JSUndefined JSUndefined = True"
| "strict_equals (JSBool a) (JSBool b) = (a = b)"
| "strict_equals (JSString a) (JSString b) = (a = b)"
| "strict_equals _ _ = False"

datatype js_error = TypeError | DBusError string

subsection \<open>Constants\<close>

definition SERVICE_UUID :: string where
  "SERVICE_UUID = ''185f3df4-3268-4e3f-9fca-d4d5059915bd''"

datatype variant = VariantB bool | VariantS string

text \<open>
  \<open>SERVICE_RECORD\<close> is read from a resource file of the application that is not part of
  this source file, so \<open>SERVICE_PROFILE\<close> takes it as a parameter.
\<close>

definition SERVICE_PROFILE :: "string \<Rightarrow> (string \<times> variant) list" where
  "SERVICE_PROFILE service_record =
     [(''RequireAuthorization'', VariantB False),
      (''RequireAuthentication'', VariantB True),
      (''ServiceRecord'', VariantS service_record)]"

subsection \<open>Data\<close>

text \<open>
  A device proxy (\<open>org.bluez.Device1\<close>). \<open>u_muxer\<close> is the field \<open>_muxer\<close>: \<open>None\<close> is
  \<open>null\<close>, and a \<open>Multiplex.Connection\<close> is identified by the file descriptor of the
  socket connection it wraps. \<open>uu_deviceChangedId\<close> is \<open>__deviceChangedId\<close>.
\<close>

record bludev =
  g_object_path :: string
  Address :: string
  Alias :: string
  Paired :: bool
  Connected :: bool
  ServicesResolved :: bool
  UUIDs :: "string list"
  u_muxer :: "nat option"
  uu_deviceChangedId :: "nat option"

text \<open>
  The identity packet of a negotiated channel; \<open>bluetoothHost\<close> and \<open>bluetoothPath\<close> are
  the two fields of \<open>identity.body\<close> that this file writes.
\<close>

record identity =
  deviceId :: string
  bluetoothHost :: "string option"
  bluetoothPath :: "string option"

text \<open>
  The service object. \<open>u_devices\<close> is the \<open>Map\<close> from object path to proxy, kept in
  insertion order as a JavaScript \<open>Map\<close> keeps it: \<open>AList.update\<close> replaces the value of a
  present key in place and appends an absent one, as \<open>Map.prototype.set\<close> does.
  \<open>u_profile\<close> and \<open>u_profileManager\<close> hold the object path of the exported interface and
  of the manager proxy; \<open>None\<close> is \<open>undefined\<close> or \<open>null\<close>.
\<close>

record service =
  g_name_owner :: "string option"
  u_devices :: "(string \<times> bludev) list"
  u_profileManager :: "string option"
  u_profile :: "string option"
  u_nameOwnerChangedId :: "nat option"

datatype effect =
    Debug string
  | Warning js_error "string option"
  | LogError js_error
  | Notify string
  | NewDBusProxy string
  | ProxyConnect string nat
  | ProxyDisconnect string "nat option"
  | ServiceConnect nat
  | ServiceDisconnect "nat option"
  | ExportProfile string
  | RegisterProfile string string "(string \<times> variant) list"
  | GetManagedObjects
  | ConnectProfile string string
  | SocketFromFd nat
  | MuxerNew nat string
  | CancellableConnect nat string
  | MuxerClose nat
  | Negotiate nat
  | EnsureDevice identity
  | Attach nat string
  | ProfileDestroy string
  | ProfileManagerDestroy string

text \<open>
  What the world answers during one handler. \<open>proxy_init\<close> is the proxy that
  \<open>new Gio.DBusProxy\<close> and \<open>init_promise\<close> produce for an object path (or the error they
  throw); \<open>handler_id\<close> is the id that \<open>connect\<close> returns; the other fields are the error
  a call throws, if any, or its result.
\<close>

record world =
  SERVICE_RECORD :: string
  proxy_init :: "string \<Rightarrow> js_error + bludev"
  handler_id :: nat
  service_init_result :: "js_error option"
  profileManager_init_result :: "js_error option"
  RegisterProfile_result :: "js_error option"
  GetManagedObjects_result :: "js_error + (string \<times> string list) list"
  ConnectProfile_result :: "js_error option"
  new_from_fd_result :: "js_error option"
  negotiate_result :: "js_error + identity"
  ensureDevice_result :: "js_error + string"

text \<open>How an \<open>async\<close> method ends: its promise resolves, or rejects with an error.\<close>

datatype outcome = Resolved | Rejected js_error

subsection \<open>The device proxy\<close>

text \<open>\<open>proxy.close\<close>, installed by \<open>_getDeviceProxy\<close>.\<close>

definition close :: "bludev \<Rightarrow> bludev \<times> effect list" where
  "close d =
     (case u_muxer d of
        Some m \<Rightarrow> (d\<lparr>u_muxer := None\<rparr>,
                   [Debug (''GSConnect: Disconnecting '' @ Alias d), MuxerClose m])
      | None \<Rightarrow> (d, []))"

text \<open>
  \<open>_getDeviceProxy\<close>: the proxy is constructed for \<open>object_path\<close>, its channel is set to
  \<open>null\<close>; on an error the method warns and returns \<open>undefined\<close> (\<open>None\<close>).
\<close>

definition u_getDeviceProxy :: "world \<Rightarrow> string \<Rightarrow> bludev option \<times> effect list" where
  "u_getDeviceProxy w object_path =
     (case proxy_init w object_path of
        Inl e \<Rightarrow> (None, [NewDBusProxy object_path, Warning e None])
      | Inr proxy \<Rightarrow>
          (Some (proxy\<lparr>g_object_path := object_path, u_muxer := None,
                        uu_deviceChangedId := None\<rparr>),
           [NewDBusProxy object_path]))"

subsection \<open>The getter \<open>devices\<close>\<close>

definition devices :: "service \<Rightarrow> bludev list" where
  "devices s = filter (\<lambda>bludev. SERVICE_UUID \<in> set (UUIDs bludev)) (map snd (u_devices s))"

subsection \<open>Connecting and disconnecting\<close>

text \<open>
  \<open>_connectDevice\<close>. The rejection of \<open>ConnectProfile\<close> is caught and dropped, so the
  outcome of the call does not show in the result.
\<close>

definition u_connectDevice :: "service \<Rightarrow> world \<Rightarrow> bludev \<Rightarrow> service \<times> effect list" where
  "u_connectDevice s w bludev =
     (case u_muxer bludev of
        Some m \<Rightarrow> (s, [Debug (''already connected '' @ Alias bludev)])
      | None \<Rightarrow>
          (if Paired bludev
           then (s, [Debug (''requesting bluetooth connection '' @ Alias bludev),
                     ConnectProfile (g_object_path bludev) SERVICE_UUID])
           else (s, [])))"

text \<open>
  \<open>RequestDisconnection\<close>. \<open>close\<close> changes the proxy object that the map holds, so the
  closed proxy is written back under its key.
\<close>

definition RequestDisconnection :: "service \<Rightarrow> string \<Rightarrow> service \<times> effect list" where
  "RequestDisconnection s object_path =
     (case map_of (u_devices s) object_path of
        Some bludev \<Rightarrow>
          (let (bludev', es) = close bludev
           in (s\<lparr>u_devices := AList.update object_path bludev' (u_devices s)\<rparr>,
               Debug object_path # es))
      | None \<Rightarrow> (s, [Debug object_path]))"

definition broadcast :: "service \<Rightarrow> world \<Rightarrow> string \<Rightarrow> service \<times> effect list" where
  "broadcast s w object_path =
     (case map_of (u_devices s) object_path of
        Some bludev \<Rightarrow> u_connectDevice s w bludev
      | None \<Rightarrow> (s, []))"

subsection \<open>The object mirror\<close>

text \<open>
  \<open>_onInterfacesAdded\<close>: the loop over the keys of \<open>interfaces\<close>, with its three
  \<open>continue\<close> statements.
\<close>

fun u_onInterfacesAdded :: "service \<Rightarrow> world \<Rightarrow> string \<Rightarrow> string list \<Rightarrow> service \<times> effect list" where
  "u_onInterfacesAdded s w object_path [] = (s, [])"
| "u_onInterfacesAdded s w object_path (interface_name # interfaces) =
     (if interface_name \<noteq> ''org.bluez.Device1''
      then u_onInterfacesAdded s w object_path interfaces
      else if map_of (u_devices s) object_path \<noteq> None
      then u_onInterfacesAdded s w object_path interfaces
      else
        (case u_getDeviceProxy w object_path of
           (None, es) \<Rightarrow>
             (let (s', es') = u_onInterfacesAdded s w object_path interfaces
              in (s', es @ es'))
         | (Some proxy, es) \<Rightarrow>
             (let proxy' = proxy\<lparr>uu_deviceChangedId := Some (handler_id w)\<rparr>;
                  s1 = s\<lparr>u_devices := AList.update (g_object_path proxy') proxy' (u_devices s)\<rparr>;
                  (s', es') = u_onInterfacesAdded s1 w object_path interfaces
              in (s', es @ [ProxyConnect (g_object_path proxy') (handler_id w),
                            Notify ''devices''] @ es'))))"

text \<open>
  The same method with its suspension point. At \<open>await this._getDeviceProxy(...)\<close> the
  method gives control back to the main loop, and other handlers run before it goes on.
  \<open>u_onInterfacesAdded_until_await\<close> is the loop up to that point: it ends (\<open>None\<close>), or
  it has passed both guards, constructed the proxy and waits, with the interface names it
  has not visited yet. \<open>u_onInterfacesAdded_after_await\<close> is what follows when the proxy
  has initialised or failed, on the map as it is by then. \<open>u_onInterfacesAdded_resume\<close>
  goes on from there to the next suspension or to the end.
\<close>

fun u_onInterfacesAdded_until_await ::
  "service \<Rightarrow> string \<Rightarrow> string list \<Rightarrow> effect list \<times> string list option" where
  "u_onInterfacesAdded_until_await s object_path [] = ([], None)"
| "u_onInterfacesAdded_until_await s object_path (interface_name # interfaces) =
     (if interface_name \<noteq> ''org.bluez.Device1''
      then u_onInterfacesAdded_until_await s object_path interfaces
      else if map_of (u_devices s) object_path \<noteq> None
      then u_onInterfacesAdded_until_await s object_path interfaces
      else ([NewDBusProxy object_path], Some interfaces))"

definition u_onInterfacesAdded_after_await ::
  "service \<Rightarrow> world \<Rightarrow> string \<Rightarrow> service \<times> effect list" where
  "u_onInterfacesAdded_after_await s w object_path =
     (case proxy_init w object_path of
        Inl e \<Rightarrow> (s, [Warning e None])
      | Inr proxy \<Rightarrow>
          (let proxy' = proxy\<lparr>g_object_path := object_path, u_muxer := None,
                               uu_deviceChangedId := Some (handler_id w)\<rparr>
           in (s\<lparr>u_devices := AList.update (g_object_path proxy') proxy' (u_devices s)\<rparr>,
               [ProxyConnect (g_object_path proxy') (handler_id w), Notify ''devices''])))"

definition u_onInterfacesAdded_resume ::
  "service \<Rightarrow> world \<Rightarrow> string \<Rightarrow> string list
     \<Rightarrow> (service \<times> effect list) \<times> string list option" where
  "u_onInterfacesAdded_resume s w object_path interfaces =
     (let (s1, es1) = u_onInterfacesAdded_after_await s w object_path;
          (es2, pending) = u_onInterfacesAdded_until_await s1 object_path interfaces
      in ((s1, es1 @ es2), pending))"

fun u_onInterfacesRemoved_loop :: "service \<Rightarrow> string \<Rightarrow> string list \<Rightarrow> service \<times> effect list" where
  "u_onInterfacesRemoved_loop s object_path [] = (s, [])"
| "u_onInterfacesRemoved_loop s object_path (interface_name # interfaces) =
     (if interface_name \<noteq> ''org.bluez.Device1''
      then u_onInterfacesRemoved_loop s object_path interfaces
      else
        (case map_of (u_devices s) object_path of
           None \<Rightarrow> u_onInterfacesRemoved_loop s object_path interfaces
         | Some proxy \<Rightarrow>
             (let (s1, es1) = RequestDisconnection s object_path;
                  s2 = s1\<lparr>u_devices := AList.delete object_path (u_devices s1)\<rparr>;
                  (s', es') = u_onInterfacesRemoved_loop s2 object_path interfaces
              in (s', ProxyDisconnect object_path (uu_deviceChangedId proxy) # es1
                        @ [Notify ''devices''] @ es'))))"

definition u_onInterfacesRemoved :: "service \<Rightarrow> string \<Rightarrow> string list \<Rightarrow> service \<times> effect list" where
  "u_onInterfacesRemoved s object_path interfaces =
     (if length interfaces = 0 then (s, [])
      else u_onInterfacesRemoved_loop s object_path interfaces)"

text \<open>
  The property change set of \<open>g-properties-changed\<close>, unpacked: a field is \<open>None\<close> when
  the dictionary has no such key.
\<close>

record changed =
  changed_Connected :: "bool option"
  changed_ServicesResolved :: "bool option"
  changed_Paired :: "bool option"
  changed_UUIDs :: "string list option"

definition u_onDeviceChanged :: "service \<Rightarrow> world \<Rightarrow> bludev \<Rightarrow> changed \<Rightarrow> service \<times> effect list" where
  "u_onDeviceChanged s w proxy ch =
     (case changed_Connected ch of
        Some c \<Rightarrow>
          (if c then u_connectDevice s w proxy
           else RequestDisconnection s (g_object_path proxy))
      | None \<Rightarrow>
          (if changed_ServicesResolved ch = Some True then u_connectDevice s w proxy
           else (s, [])))"

subsection \<open>The profile life cycle\<close>

text \<open>
  The first branch of \<open>_onNameOwnerChanged\<close>: the loop over \<open>this._devices.values()\<close>
  that deletes while it iterates. The iterator of a \<open>Map\<close> skips an entry that was
  deleted before it was reached, so the loop runs over the entries the map had at the
  start and tests each against the map as it is now.
\<close>

fun remove_all_devices :: "service \<Rightarrow> (string \<times> bludev) list \<Rightarrow> service \<times> effect list" where
  "remove_all_devices s [] = (s, [])"
| "remove_all_devices s ((key, bludev) # entries) =
     (if map_of (u_devices s) key = None then remove_all_devices s entries
      else
        (let s1 = s\<lparr>u_devices := AList.delete (g_object_path bludev) (u_devices s)\<rparr>;
             (s', es') = remove_all_devices s1 entries
         in (s', ProxyDisconnect (g_object_path bludev) (uu_deviceChangedId bludev) # es')))"

text \<open>The loop over \<open>Object.entries(objects)\<close> of the second branch.\<close>

fun add_current_devices :: "service \<Rightarrow> world \<Rightarrow> (string \<times> string list) list \<Rightarrow> service \<times> effect list" where
  "add_current_devices s w [] = (s, [])"
| "add_current_devices s w ((object_path, object) # objects) =
     (let (s1, es1) = u_onInterfacesAdded s w object_path object;
          (s', es') = add_current_devices s1 w objects
      in (s', es1 @ es'))"

text \<open>
  \<open>_onNameOwnerChanged\<close>. Reading a property of \<open>this._profileManager\<close> or of
  \<open>this._profile\<close> while it is \<open>undefined\<close> or \<open>null\<close> throws a \<open>TypeError\<close>, which the
  \<open>catch\<close> block logs like every other error of the method.
\<close>

definition u_onNameOwnerChanged :: "service \<Rightarrow> world \<Rightarrow> service \<times> effect list" where
  "u_onNameOwnerChanged s w =
     (if g_name_owner s = None
      then
        (let (s1, es1) = remove_all_devices s (u_devices s)
         in (s1, es1 @ GetManagedObjects #
                  (case GetManagedObjects_result w of
                     Inl e \<Rightarrow> [LogError e]
                   | Inr objects \<Rightarrow> [])))
      else
        (case u_profileManager s of
           None \<Rightarrow> (s, [LogError TypeError])
         | Some manager \<Rightarrow>
             (case u_profile s of
                None \<Rightarrow> (s, [LogError TypeError])
              | Some profile_path \<Rightarrow>
                  (let request = RegisterProfile profile_path SERVICE_UUID
                                   (SERVICE_PROFILE (SERVICE_RECORD w))
                   in case RegisterProfile_result w of
                        Some e \<Rightarrow> (s, [request, LogError e])
                      | None \<Rightarrow>
                          (case GetManagedObjects_result w of
                             Inl e \<Rightarrow> (s, [request, GetManagedObjects, LogError e])
                           | Inr objects \<Rightarrow>
                               (let (s', es') = add_current_devices s w objects
                                in (s', request # GetManagedObjects # es')))))))"

subsection \<open>The signal filter\<close>

definition name_owner_value :: "service \<Rightarrow> jsval" where
  "name_owner_value s = (case g_name_owner s of None \<Rightarrow> JSNull | Some owner \<Rightarrow> JSString owner)"

text \<open>The condition \<open>!this.g_name_owner === null\<close> of \<open>vfunc_g_signal\<close>, as it parses.\<close>

definition name_owner_guard :: "service \<Rightarrow> bool" where
  "name_owner_guard s = strict_equals (js_not (name_owner_value s)) JSNull"

definition vfunc_g_signal ::
  "service \<Rightarrow> world \<Rightarrow> string \<Rightarrow> string \<Rightarrow> string list \<Rightarrow> service \<times> effect list" where
  "vfunc_g_signal s w signal_name object_path interfaces =
     (if name_owner_guard s then (s, [])
      else if signal_name = ''InterfacesAdded''
      then u_onInterfacesAdded s w object_path interfaces
      else if signal_name = ''InterfacesRemoved''
      then u_onInterfacesRemoved s object_path interfaces
      else (s, []))"

subsection \<open>The exported profile\<close>

definition Release :: "service \<Rightarrow> service \<times> effect list" where
  "Release s = (s, [Debug ''Release''])"

text \<open>The \<open>catch\<close> block of \<open>NewConnection\<close>, for a device that was found.\<close>

definition NewConnection_catch ::
  "service \<Rightarrow> string \<Rightarrow> bludev \<Rightarrow> js_error \<Rightarrow> effect list \<Rightarrow> service \<times> effect list \<times> outcome" where
  "NewConnection_catch s object_path bludev e es =
     (let (bludev', ces) = close bludev
      in (s\<lparr>u_devices := AList.update object_path bludev' (u_devices s)\<rparr>,
          es @ ces @ [Warning e (Some (Alias bludev))],
          Resolved))"

text \<open>
  \<open>NewConnection\<close>. When the map has no proxy for \<open>object_path\<close>, \<open>bludev\<close> is
  \<open>undefined\<close>: the right-hand side of the assignment to \<open>bludev._muxer\<close> is evaluated,
  the assignment throws a \<open>TypeError\<close>, and in the \<open>catch\<close> block \<open>bludev.close()\<close>
  throws a second one, which leaves the method: its promise rejects and the call of
  \<open>warning\<close> is not reached. The debug line at the head of the method is recorded with
  the object path alone; the descriptor number and the descriptor properties, which the
  source prints with it, are left out of the entry.
\<close>

definition NewConnection ::
  "service \<Rightarrow> world \<Rightarrow> string \<Rightarrow> nat \<Rightarrow> service \<times> effect list \<times> outcome" where
  "NewConnection s w object_path fd =
     (case map_of (u_devices s) object_path of
        None \<Rightarrow>
          (case new_from_fd_result w of
             Some e \<Rightarrow> (s, [Debug object_path, SocketFromFd fd], Rejected TypeError)
           | None \<Rightarrow> (s, [Debug object_path, SocketFromFd fd, MuxerNew fd object_path],
                      Rejected TypeError))
      | Some bludev \<Rightarrow>
          (case new_from_fd_result w of
             Some e \<Rightarrow>
               NewConnection_catch s object_path bludev e [Debug object_path, SocketFromFd fd]
           | None \<Rightarrow>
               (let bludev1 = bludev\<lparr>u_muxer := Some fd\<rparr>;
                    s1 = s\<lparr>u_devices := AList.update object_path bludev1 (u_devices s)\<rparr>;
                    es1 = [Debug object_path, SocketFromFd fd, MuxerNew fd object_path,
                           CancellableConnect fd object_path, Negotiate fd]
                in case negotiate_result w of
                     Inl e \<Rightarrow> NewConnection_catch s1 object_path bludev1 e es1
                   | Inr ident \<Rightarrow>
                       (let ident' = ident\<lparr>bluetoothHost := Some (Address bludev1),
                                            bluetoothPath := Some (g_object_path bludev1)\<rparr>
                        in case ensureDevice_result w of
                             Inl e \<Rightarrow>
                               NewConnection_catch s1 object_path bludev1 e
                                 (es1 @ [EnsureDevice ident'])
                           | Inr device \<Rightarrow>
                               (s1, es1 @ [EnsureDevice ident', Attach fd device], Resolved)))))"

subsection \<open>Teardown and start\<close>

text \<open>
  \<open>destroy\<close>: every proxy of the map is closed in place; \<open>this._profile\<close> is destroyed
  and kept, \<open>this._profileManager\<close> is destroyed and set to \<open>null\<close>.
\<close>

definition destroy :: "service \<Rightarrow> service \<times> effect list" where
  "destroy s =
     (let closed = map (\<lambda>(key, bludev). (key, close bludev)) (u_devices s);
          s1 = s\<lparr>u_devices := map (\<lambda>(key, r). (key, fst r)) closed\<rparr>;
          es1 = concat (map (\<lambda>(key, r). snd r) closed);
          es2 = (case u_profile s1 of Some p \<Rightarrow> [ProfileDestroy p] | None \<Rightarrow> [])
      in case u_profileManager s1 of
           Some manager \<Rightarrow>
             (s1\<lparr>u_profileManager := None\<rparr>,
              ServiceDisconnect (u_nameOwnerChangedId s) # es1 @ es2
                @ [ProfileManagerDestroy manager])
         | None \<Rightarrow> (s1, ServiceDisconnect (u_nameOwnerChangedId s) # es1 @ es2))"

text \<open>The object as \<open>_init\<close> leaves it, before \<open>_init_async\<close> has run.\<close>

definition init :: "string option \<Rightarrow> service" where
  "init owner = \<lparr>g_name_owner = owner, u_devices = [], u_profileManager = None,
                 u_profile = None, u_nameOwnerChangedId = None\<rparr>"

definition u_init_async :: "service \<Rightarrow> world \<Rightarrow> service \<times> effect list" where
  "u_init_async s w =
     (case service_init_result w of
        Some e \<Rightarrow> (let (s', es) = destroy s in (s', Warning e None # es))
      | None \<Rightarrow>
          (case profileManager_init_result w of
             Some e \<Rightarrow>
               (let (s', es) = destroy (s\<lparr>u_profileManager := Some ''/org/bluez''\<rparr>)
                in (s', Warning e None # es))
           | None \<Rightarrow>
               (let s1 = s\<lparr>u_profileManager := Some ''/org/bluez'',
                           u_profile := Some ''/org/gnome/Shell/Extensions/GSConnect/Bluetooth'',
                           u_nameOwnerChangedId := Some (handler_id w)\<rparr>;
                    (s', es) = u_onNameOwnerChanged s1 w
                in (s', ExportProfile ''/org/gnome/Shell/Extensions/GSConnect/Bluetooth''
                          # ServiceConnect (handler_id w) # es))))"

subsection \<open>Events\<close>

text \<open>
  What can reach the object from outside, each with the answers of the world during its
  handler. Before \<open>notify::g-name-owner\<close> is delivered the proxy base class has stored
  the new owner, and before \<open>g-properties-changed\<close> is delivered it has stored the new
  property values; the signal of a device proxy reaches the handler only for a proxy of
  the map, since both removal paths disconnect it.

  An event runs its handler to the end, with two exceptions that follow the suspension of
  \<open>_onInterfacesAdded\<close>: \<open>InterfacesAddedStart\<close> delivers the signal and runs the
  handler up to its \<open>await\<close>, and \<open>InterfacesAddedResume\<close> is the main loop taking
  a suspended handler up again, with the interface names it still has to visit. Any
  other event can come between the two. \<open>GSignal\<close> with \<open>InterfacesAdded\<close> is the
  case where nothing comes between.
\<close>

datatype event =
    InitAsync
  | GSignal string string "string list"
  | NameOwnerChanged "string option"
  | PropertiesChanged string changed
  | CallNewConnection string nat
  | CallRequestDisconnection string
  | CallRelease
  | CallBroadcast string
  | CallDestroy
  | InterfacesAddedStart string "string list"
  | InterfacesAddedResume string "string list"

definition update_properties :: "changed \<Rightarrow> bludev \<Rightarrow> bludev" where
  "update_properties ch d =
     d\<lparr>Connected := (case changed_Connected ch of Some b \<Rightarrow> b | None \<Rightarrow> Connected d),
       ServicesResolved :=
         (case changed_ServicesResolved ch of Some b \<Rightarrow> b | None \<Rightarrow> ServicesResolved d),
       Paired := (case changed_Paired ch of Some b \<Rightarrow> b | None \<Rightarrow> Paired d),
       UUIDs := (case changed_UUIDs ch of Some us \<Rightarrow> us | None \<Rightarrow> UUIDs d)\<rparr>"

fun step :: "service \<Rightarrow> world \<Rightarrow> event \<Rightarrow> service \<times> effect list" where
  "step s w InitAsync = u_init_async s w"
| "step s w (GSignal signal_name object_path interfaces) =
     vfunc_g_signal s w signal_name object_path interfaces"
| "step s w (NameOwnerChanged owner) = u_onNameOwnerChanged (s\<lparr>g_name_owner := owner\<rparr>) w"
| "step s w (PropertiesChanged object_path ch) =
     (case map_of (u_devices s) object_path of
        None \<Rightarrow> (s, [])
      | Some bludev \<Rightarrow>
          (let proxy = update_properties ch bludev
           in u_onDeviceChanged (s\<lparr>u_devices := AList.update object_path proxy (u_devices s)\<rparr>)
                w proxy ch))"
| "step s w (CallNewConnection object_path fd) =
     (let (s', es, r) = NewConnection s w object_path fd in (s', es))"
| "step s w (CallRequestDisconnection object_path) = RequestDisconnection s object_path"
| "step s w CallRelease = Release s"
| "step s w (CallBroadcast object_path) = broadcast s w object_path"
| "step s w CallDestroy = destroy s"
| "step s w (InterfacesAddedStart object_path interfaces) =
     (s, fst (u_onInterfacesAdded_until_await s object_path interfaces))"
| "step s w (InterfacesAddedResume object_path interfaces) =
     fst (u_onInterfacesAdded_resume s w object_path interfaces)"

fun run :: "service \<Rightarrow> (world \<times> event) list \<Rightarrow> service \<times> effect list" where
  "run s [] = (s, [])"
| "run s ((w, ev) # evs) =
     (let (s1, es1) = step s w ev;
          (s', es') = run s1 evs
      in (s', es1 @ es'))"

subsection \<open>Reading a trace\<close>

text \<open>
  The multiplexer connections that were constructed for a device path and have not been
  closed since, in the order of their construction.
\<close>

fun active_muxers :: "string \<Rightarrow> effect list \<Rightarrow> nat list \<Rightarrow> nat list" where
  "active_muxers p [] ms = ms"
| "active_muxers p (MuxerNew m q # es) ms =
     active_muxers p es (if q = p then ms @ [m] else ms)"
| "active_muxers p (MuxerClose m # es) ms = active_muxers p es (removeAll m ms)"
| "active_muxers p (e # es) ms = active_muxers p es ms"

fun is_RegisterProfile :: "effect \<Rightarrow> bool" where
  "is_RegisterProfile (RegisterProfile p u opts) = True"
| "is_RegisterProfile e = False"

fun is_ConnectProfile :: "effect \<Rightarrow> bool" where
  "is_ConnectProfile (ConnectProfile p u) = True"
| "is_ConnectProfile e = False"

fun is_EnsureDevice :: "effect \<Rightarrow> bool" where
  "is_EnsureDevice (EnsureDevice i) = True"
| "is_EnsureDevice e = False"

fun is_Attach :: "effect \<Rightarrow> bool" where
  "is_Attach (Attach m d) = True"
| "is_Attach e = False"

fun is_MuxerClose :: "effect \<Rightarrow> bool" where
  "is_MuxerClose (MuxerClose m) = True"
| "is_MuxerClose e = False"

fun is_log :: "effect \<Rightarrow> bool" where
  "is_log (Warning e a) = True"
| "is_log (LogError e) = True"
| "is_log e = False"

subsection \<open>Well-formed device maps\<close>

text \<open>
  A \<open>Map\<close> has one entry for a key, and the only \<open>set\<close> of the source stores a proxy
  under its own object path.
\<close>

definition keyed_by_path :: "(string \<times> bludev) list \<Rightarrow> bool" where
  "keyed_by_path al =
     (distinct (map fst al) \<and> list_all (\<lambda>(key, bludev). g_object_path bludev = key) al)"

subsection \<open>Concrete inputs\<close>

text \<open>
  A paired phone that advertises the service, a world in which every call succeeds and
  the daemon manages that one phone, the service as \<open>_init_async\<close> leaves it while the
  daemon is up and manages nothing, and the same service tracking the phone.
\<close>

definition phone :: bludev where
  "phone = \<lparr>g_object_path = ''/org/bluez/hci0/dev_1'', Address = ''AA:BB:CC:DD:EE:FF'',
            Alias = ''phone'', Paired = True, Connected = False, ServicesResolved = False,
            UUIDs = [''185f3df4-3268-4e3f-9fca-d4d5059915bd''], u_muxer = None,
            uu_deviceChangedId = Some 2\<rparr>"

definition calm :: world where
  "calm = \<lparr>SERVICE_RECORD = ''<record/>'',
           proxy_init = (\<lambda>p. Inr phone),
           handler_id = 2,
           service_init_result = None,
           profileManager_init_result = None,
           RegisterProfile_result = None,
           GetManagedObjects_result =
             Inr [(''/org/bluez/hci0/dev_1'', [''org.bluez.Device1''])],
           ConnectProfile_result = None,
           new_from_fd_result = None,
           negotiate_result =
             Inr \<lparr>deviceId = ''abc'', bluetoothHost = None, bluetoothPath = None\<rparr>,
           ensureDevice_result = Inr ''device-abc''\<rparr>"

definition bound :: service where
  "bound = \<lparr>g_name_owner = Some '':1.5'', u_devices = [],
            u_profileManager = Some ''/org/bluez'',
            u_profile = Some ''/org/gnome/Shell/Extensions/GSConnect/Bluetooth'',
            u_nameOwnerChangedId = Some 1\<rparr>"

definition tracking :: service where
  "tracking = bound\<lparr>u_devices := [(''/org/bluez/hci0/dev_1'', phone)]\<rparr>"

section \<open>Properties\<close>

subsection \<open>The signal filter\<close>

text \<open>
  C10. The guard of \<open>vfunc_g_signal\<close> that was meant to drop signals while the daemon
  name has no owner is false for every value of \<open>g_name_owner\<close>, because \<open>!\<close> binds
  tighter than \<open>===\<close> and a boolean is never strictly equal to \<open>null\<close>. So
  \<open>InterfacesAdded\<close> and \<open>InterfacesRemoved\<close> always reach their handlers, whatever
  the owner is.
\<close>

theorem name_owner_guard_never_fires:
  "\<not> name_owner_guard s
   \<and> vfunc_g_signal s w ''InterfacesAdded'' object_path interfaces
       = u_onInterfacesAdded s w object_path interfaces
   \<and> vfunc_g_signal s w ''InterfacesRemoved'' object_path interfaces
       = u_onInterfacesRemoved s object_path interfaces"
  by (simp add: vfunc_g_signal_def name_owner_guard_def js_not_def)

subsection \<open>Registration requests\<close>

text \<open>
  \<open>RegisterProfile\<close> is called in one place, the second branch of
  \<open>_onNameOwnerChanged\<close>. The lemmas below go through every other method and show that
  its trace holds no such request.
\<close>


lemma close_no_register: "filter is_RegisterProfile (snd (close d)) = []"
  by (simp add: close_def split: option.splits)

lemma RequestDisconnection_no_register:
  "filter is_RegisterProfile (snd (RequestDisconnection s p)) = []"
  by (simp add: RequestDisconnection_def close_no_register split_beta split: option.splits)

lemma connectDevice_no_register:
  "filter is_RegisterProfile (snd (u_connectDevice s w d)) = []"
  by (simp add: u_connectDevice_def split: option.splits)

lemma broadcast_no_register: "filter is_RegisterProfile (snd (broadcast s w p)) = []"
  by (simp add: broadcast_def connectDevice_no_register split: option.splits)

lemma getDeviceProxy_no_register:
  "filter is_RegisterProfile (snd (u_getDeviceProxy w p)) = []"
  by (simp add: u_getDeviceProxy_def split: sum.splits)

lemma onInterfacesAdded_no_register:
  "filter is_RegisterProfile (snd (u_onInterfacesAdded s w p ifs)) = []"
proof (induction ifs arbitrary: s)
  case Nil
  show ?case by simp
next
  case (Cons i ifs)
  show ?case
    using getDeviceProxy_no_register [of w p]
    by (cases "u_getDeviceProxy w p")
       (simp add: Cons.IH Let_def split_beta split: option.splits)
qed

lemma until_await_no_register:
  "filter is_RegisterProfile (fst (u_onInterfacesAdded_until_await s p ifs)) = []"
  by (induction ifs) simp_all

lemma after_await_no_register:
  "filter is_RegisterProfile (snd (u_onInterfacesAdded_after_await s w p)) = []"
  by (simp add: u_onInterfacesAdded_after_await_def Let_def split: sum.splits)

lemma resume_no_register:
  "filter is_RegisterProfile (snd (fst (u_onInterfacesAdded_resume s w p ifs))) = []"
  by (simp add: u_onInterfacesAdded_resume_def split_beta after_await_no_register
        until_await_no_register)

lemma after_await_profile:
  "u_profile (fst (u_onInterfacesAdded_after_await s w p)) = u_profile s"
  by (simp add: u_onInterfacesAdded_after_await_def Let_def split: sum.splits)

lemma resume_state:
  "fst (fst (u_onInterfacesAdded_resume s w p ifs))
     = fst (u_onInterfacesAdded_after_await s w p)"
  by (simp add: u_onInterfacesAdded_resume_def split_beta)

lemma onInterfacesRemoved_loop_no_register:
  "filter is_RegisterProfile (snd (u_onInterfacesRemoved_loop s p ifs)) = []"
proof (induction ifs arbitrary: s)
  case Nil
  show ?case by simp
next
  case (Cons i ifs)
  show ?case
    by (simp add: Cons.IH RequestDisconnection_no_register Let_def split_beta
          split: option.splits)
qed

lemma onInterfacesRemoved_no_register:
  "filter is_RegisterProfile (snd (u_onInterfacesRemoved s p ifs)) = []"
  by (simp add: u_onInterfacesRemoved_def onInterfacesRemoved_loop_no_register)

lemma add_current_devices_no_register:
  "filter is_RegisterProfile (snd (add_current_devices s w objects)) = []"
proof (induction objects arbitrary: s)
  case Nil
  show ?case by simp
next
  case (Cons a objects)
  show ?case
    by (cases a) (simp add: Cons.IH onInterfacesAdded_no_register Let_def split_beta)
qed

lemma remove_all_devices_no_register:
  "filter is_RegisterProfile (snd (remove_all_devices s entries)) = []"
  by (induction s entries rule: remove_all_devices.induct)
     (simp_all add: Let_def split_beta)

lemma onDeviceChanged_no_register:
  "filter is_RegisterProfile (snd (u_onDeviceChanged s w d ch)) = []"
  by (simp add: u_onDeviceChanged_def connectDevice_no_register
        RequestDisconnection_no_register split: option.splits)

lemma NewConnection_no_register:
  "filter is_RegisterProfile (fst (snd (NewConnection s w p fd))) = []"
  by (simp add: NewConnection_def NewConnection_catch_def close_no_register Let_def split_beta
        split: option.splits sum.splits)

lemma closing_no_register:
  "filter is_RegisterProfile
     (concat (map (\<lambda>(key, r). snd r) (map (\<lambda>(key, bludev). (key, close bludev)) al))) = []"
  by (induction al) (simp_all add: close_no_register split_beta)

lemma destroy_no_register: "filter is_RegisterProfile (snd (destroy s)) = []"
  using closing_no_register [of "u_devices s"]
  by (simp add: destroy_def Let_def split: option.splits)

lemma vfunc_g_signal_no_register:
  "filter is_RegisterProfile (snd (vfunc_g_signal s w n p ifs)) = []"
  by (simp add: vfunc_g_signal_def onInterfacesAdded_no_register
        onInterfacesRemoved_no_register)

text \<open>No handler replaces the exported profile, except \<open>_init_async\<close>, which creates it.\<close>

lemma onInterfacesAdded_profile:
  "u_profile (fst (u_onInterfacesAdded s w p ifs)) = u_profile s"
proof (induction ifs arbitrary: s)
  case Nil
  show ?case by simp
next
  case (Cons i ifs)
  show ?case
    by (cases "u_getDeviceProxy w p")
       (simp add: Cons.IH Let_def split_beta split: option.splits)
qed

lemma add_current_devices_profile:
  "u_profile (fst (add_current_devices s w objects)) = u_profile s"
proof (induction objects arbitrary: s)
  case Nil
  show ?case by simp
next
  case (Cons a objects)
  show ?case
    by (cases a) (simp add: Cons.IH onInterfacesAdded_profile Let_def split_beta)
qed

lemma remove_all_devices_profile:
  "u_profile (fst (remove_all_devices s entries)) = u_profile s"
  by (induction s entries rule: remove_all_devices.induct)
     (simp_all add: Let_def split_beta)

lemma onNameOwnerChanged_profile:
  "u_profile (fst (u_onNameOwnerChanged s w)) = u_profile s"
  by (simp add: u_onNameOwnerChanged_def remove_all_devices_profile
        add_current_devices_profile Let_def split_beta split: option.splits sum.splits)

lemma onNameOwnerChanged_register:
  "filter is_RegisterProfile (snd (u_onNameOwnerChanged s w)) =
     (case (g_name_owner s, u_profileManager s, u_profile s) of
        (Some owner, Some manager, Some path) \<Rightarrow>
          [RegisterProfile path SERVICE_UUID (SERVICE_PROFILE (SERVICE_RECORD w))]
      | _ \<Rightarrow> [])"
  by (simp add: u_onNameOwnerChanged_def remove_all_devices_no_register
        add_current_devices_no_register Let_def split_beta split: option.splits sum.splits)

lemma destroy_profile: "u_profile (fst (destroy s)) = u_profile s"
  by (simp add: destroy_def Let_def split: option.splits)

lemma init_async_register:
  "e \<in> set (filter is_RegisterProfile (snd (u_init_async s w))) \<Longrightarrow>
     e = RegisterProfile ''/org/gnome/Shell/Extensions/GSConnect/Bluetooth'' SERVICE_UUID
           (SERVICE_PROFILE (SERVICE_RECORD w))
     \<and> u_profile (fst (u_init_async s w))
         = Some ''/org/gnome/Shell/Extensions/GSConnect/Bluetooth''"
  by (simp add: u_init_async_def destroy_no_register onNameOwnerChanged_register
        onNameOwnerChanged_profile Let_def split_beta del: set_filter
        split: option.splits if_splits)

text \<open>
  C8. Every registration request that any handler issues to the profile manager carries
  the object path of the exported profile, the service UUID
  \<open>185f3df4-3268-4e3f-9fca-d4d5059915bd\<close> and the option set
  \<open>RequireAuthorization = false\<close>, \<open>RequireAuthentication = true\<close>,
  \<open>ServiceRecord =\<close> the static SDP record.
\<close>

theorem registration_request_arguments:
  assumes "RegisterProfile path uuid opts \<in> set (snd (step s w ev))"
  shows "u_profile (fst (step s w ev)) = Some path \<and> uuid = SERVICE_UUID
         \<and> opts = SERVICE_PROFILE (SERVICE_RECORD w)"
proof -
  let ?r = "RegisterProfile path uuid opts"
  from assms have mem: "?r \<in> set (filter is_RegisterProfile (snd (step s w ev)))"
    by simp
  show ?thesis
  proof (cases ev)
    case InitAsync
    with mem init_async_register [of ?r s w] show ?thesis by simp
  next
    case (GSignal n p ifs)
    with mem show ?thesis by (simp add: vfunc_g_signal_no_register del: set_filter)
  next
    case (NameOwnerChanged owner)
    with mem show ?thesis
      by (simp add: onNameOwnerChanged_register onNameOwnerChanged_profile
            del: set_filter split: option.splits)
  next
    case (PropertiesChanged p ch)
    with mem show ?thesis
      by (simp add: onDeviceChanged_no_register Let_def del: set_filter split: option.splits)
  next
    case (CallNewConnection p fd)
    with mem show ?thesis
      by (simp add: NewConnection_no_register split_beta del: set_filter)
  next
    case (CallRequestDisconnection p)
    with mem show ?thesis by (simp add: RequestDisconnection_no_register del: set_filter)
  next
    case CallRelease
    with mem show ?thesis by (simp add: Release_def)
  next
    case (CallBroadcast p)
    with mem show ?thesis by (simp add: broadcast_no_register del: set_filter)
  next
    case CallDestroy
    with mem show ?thesis by (simp add: destroy_no_register del: set_filter)
  next
    case (InterfacesAddedStart p ifs)
    with mem show ?thesis by (simp add: until_await_no_register del: set_filter)
  next
    case (InterfacesAddedResume p ifs)
    with mem show ?thesis by (simp add: resume_no_register del: set_filter)
  qed
qed


theorem registration_request_arguments_witness:
  "RegisterProfile ''/org/gnome/Shell/Extensions/GSConnect/Bluetooth''
     ''185f3df4-3268-4e3f-9fca-d4d5059915bd''
     [(''RequireAuthorization'', VariantB False), (''RequireAuthentication'', VariantB True),
      (''ServiceRecord'', VariantS ''<record/>'')]
     \<in> set (snd (step bound calm (NameOwnerChanged (Some '':1.9''))))
   \<and> u_profile (fst (step bound calm (NameOwnerChanged (Some '':1.9''))))
       = Some ''/org/gnome/Shell/Extensions/GSConnect/Bluetooth''"
proof -
  have request:
    "RegisterProfile ''/org/gnome/Shell/Extensions/GSConnect/Bluetooth''
       ''185f3df4-3268-4e3f-9fca-d4d5059915bd''
       [(''RequireAuthorization'', VariantB False), (''RequireAuthentication'', VariantB True),
        (''ServiceRecord'', VariantS ''<record/>'')]
       \<in> set (snd (step bound calm (NameOwnerChanged (Some '':1.9''))))"
    by (simp add: u_onNameOwnerChanged_def bound_def calm_def SERVICE_UUID_def
          SERVICE_PROFILE_def split_beta)
  from registration_request_arguments [OF request] request show ?thesis
    by simp
qed

subsection \<open>The object mirror\<close>

text \<open>
  Every handler keeps the device map well formed: one entry for a key, and every proxy
  stored under its own object path.
\<close>


lemma close_path: "g_object_path (fst (close d)) = g_object_path d"
  by (simp add: close_def split: option.splits)

lemma keyed_lookup:
  "keyed_by_path al \<Longrightarrow> map_of al k = Some d \<Longrightarrow> g_object_path d = k"
  by (auto simp: keyed_by_path_def list_all_iff dest: map_of_SomeD)

lemma list_all_update:
  "list_all P al \<Longrightarrow> P (k, v) \<Longrightarrow> list_all P (AList.update k v al)"
  by (induction al) auto

lemma keyed_update:
  "keyed_by_path al \<Longrightarrow> g_object_path d = k \<Longrightarrow> keyed_by_path (AList.update k d al)"
  by (simp add: keyed_by_path_def distinct_update list_all_update)

lemma keyed_delete:
  assumes "keyed_by_path al"
  shows "keyed_by_path (AList.delete k al)"
proof -
  have "distinct (map fst (AList.delete k al))"
    using assms by (simp add: keyed_by_path_def distinct_delete)
  moreover have "list_all (\<lambda>(key, bludev). g_object_path bludev = key) (AList.delete k al)"
    using assms by (simp add: keyed_by_path_def AList.delete_eq list_all_iff)
  ultimately show ?thesis by (simp add: keyed_by_path_def)
qed

lemma RequestDisconnection_keyed:
  "keyed_by_path (u_devices s) \<Longrightarrow> keyed_by_path (u_devices (fst (RequestDisconnection s p)))"
  by (simp add: RequestDisconnection_def split_beta keyed_update close_path keyed_lookup
        split: option.splits)

lemma connectDevice_state: "fst (u_connectDevice s w d) = s"
  by (simp add: u_connectDevice_def split: option.splits)

lemma broadcast_state: "fst (broadcast s w p) = s"
  by (simp add: broadcast_def connectDevice_state split: option.splits)

lemma onInterfacesAdded_keyed:
  "keyed_by_path (u_devices s) \<Longrightarrow>
     keyed_by_path (u_devices (fst (u_onInterfacesAdded s w p ifs)))"
proof (induction ifs arbitrary: s)
  case Nil
  then show ?case by simp
next
  case (Cons i ifs)
  show ?case
    using Cons.prems
    by (cases "proxy_init w p")
       (simp_all add: Cons.IH u_getDeviceProxy_def Let_def split_beta keyed_update)
qed

lemma after_await_keyed:
  "keyed_by_path (u_devices s) \<Longrightarrow>
     keyed_by_path (u_devices (fst (u_onInterfacesAdded_after_await s w p)))"
  by (simp add: u_onInterfacesAdded_after_await_def Let_def keyed_update split: sum.splits)

lemma onInterfacesRemoved_loop_keyed:
  "keyed_by_path (u_devices s) \<Longrightarrow>
     keyed_by_path (u_devices (fst (u_onInterfacesRemoved_loop s p ifs)))"
proof (induction ifs arbitrary: s)
  case Nil
  then show ?case by simp
next
  case (Cons i ifs)
  show ?case
    using Cons.prems
    by (simp add: Cons.IH Let_def split_beta keyed_delete RequestDisconnection_keyed
          split: option.splits)
qed

lemma onInterfacesRemoved_keyed:
  "keyed_by_path (u_devices s) \<Longrightarrow>
     keyed_by_path (u_devices (fst (u_onInterfacesRemoved s p ifs)))"
  by (simp add: u_onInterfacesRemoved_def onInterfacesRemoved_loop_keyed)

lemma add_current_devices_keyed:
  "keyed_by_path (u_devices s) \<Longrightarrow>
     keyed_by_path (u_devices (fst (add_current_devices s w objects)))"
proof (induction objects arbitrary: s)
  case Nil
  then show ?case by simp
next
  case (Cons a objects)
  show ?case
    using Cons.prems
    by (cases a) (simp add: Cons.IH onInterfacesAdded_keyed Let_def split_beta)
qed

lemma remove_all_devices_keyed:
  "keyed_by_path (u_devices s) \<Longrightarrow>
     keyed_by_path (u_devices (fst (remove_all_devices s entries)))"
  by (induction s entries rule: remove_all_devices.induct)
     (simp_all add: Let_def split_beta keyed_delete)

lemma onNameOwnerChanged_keyed:
  "keyed_by_path (u_devices s) \<Longrightarrow>
     keyed_by_path (u_devices (fst (u_onNameOwnerChanged s w)))"
  by (simp add: u_onNameOwnerChanged_def remove_all_devices_keyed add_current_devices_keyed
        Let_def split_beta split: option.splits sum.splits)

lemma onDeviceChanged_keyed:
  "keyed_by_path (u_devices s) \<Longrightarrow>
     keyed_by_path (u_devices (fst (u_onDeviceChanged s w d ch)))"
  by (simp add: u_onDeviceChanged_def connectDevice_state RequestDisconnection_keyed
        split: option.splits)

lemma NewConnection_keyed:
  "keyed_by_path (u_devices s) \<Longrightarrow>
     keyed_by_path (u_devices (fst (NewConnection s w p fd)))"
  by (simp add: NewConnection_def NewConnection_catch_def Let_def split_beta keyed_update
        close_path keyed_lookup split: option.splits sum.splits)

lemma closing_keyed:
  "keyed_by_path al \<Longrightarrow>
     keyed_by_path
       (map ((\<lambda>(key, r). (key, fst r)) \<circ> (\<lambda>(key, bludev). (key, close bludev))) al)"
  by (induction al) (auto simp: keyed_by_path_def close_path split_beta)

lemma destroy_keyed:
  "keyed_by_path (u_devices s) \<Longrightarrow> keyed_by_path (u_devices (fst (destroy s)))"
  by (simp add: destroy_def Let_def closing_keyed split: option.splits)

lemma init_async_keyed:
  "keyed_by_path (u_devices s) \<Longrightarrow> keyed_by_path (u_devices (fst (u_init_async s w)))"
  by (simp add: u_init_async_def Let_def split_beta destroy_keyed onNameOwnerChanged_keyed
        split: option.splits)

lemma update_properties_path: "g_object_path (update_properties ch d) = g_object_path d"
  by (simp add: update_properties_def)

lemma step_keyed:
  "keyed_by_path (u_devices s) \<Longrightarrow> keyed_by_path (u_devices (fst (step s w ev)))"
proof (cases ev)
  case (PropertiesChanged p ch)
  assume "keyed_by_path (u_devices s)"
  with PropertiesChanged show ?thesis
    by (simp add: Let_def onDeviceChanged_keyed keyed_update update_properties_path
          keyed_lookup split: option.splits)
qed (simp_all add: init_async_keyed vfunc_g_signal_def onInterfacesAdded_keyed
       onInterfacesRemoved_keyed onNameOwnerChanged_keyed NewConnection_keyed split_beta
       RequestDisconnection_keyed Release_def broadcast_state destroy_keyed
       resume_state after_await_keyed)

lemma run_keyed:
  "keyed_by_path (u_devices s) \<Longrightarrow> keyed_by_path (u_devices (fst (run s evs)))"
proof (induction evs arbitrary: s)
  case Nil
  then show ?case by simp
next
  case (Cons a evs)
  show ?case
    using Cons.prems
    by (cases a) (simp add: Cons.IH step_keyed split_beta)
qed

lemma keyed_paths: "keyed_by_path al \<Longrightarrow> map (g_object_path \<circ> snd) al = map fst al"
  by (induction al) (auto simp: keyed_by_path_def)

lemma devices_distinct:
  assumes "keyed_by_path (u_devices s)"
  shows "distinct (map g_object_path (devices s))"
proof -
  have "distinct (map fst (u_devices s))"
    using assms by (simp add: keyed_by_path_def)
  then have "distinct (map g_object_path (map snd (u_devices s)))"
    by (simp only: map_map keyed_paths [OF assms])
  then show ?thesis
    unfolding devices_def by (rule distinct_map_filter)
qed

text \<open>What the two mirror handlers do to the map, key by key.\<close>

lemma onInterfacesAdded_tracked:
  "map_of (u_devices s) p \<noteq> None \<Longrightarrow> u_onInterfacesAdded s w p ifs = (s, [])"
  by (induction ifs) simp_all

lemma onInterfacesRemoved_loop_untracked:
  "map_of (u_devices s) p = None \<Longrightarrow> u_onInterfacesRemoved_loop s p ifs = (s, [])"
  by (induction ifs) simp_all

lemma onInterfacesAdded_other:
  "''org.bluez.Device1'' \<notin> set ifs \<Longrightarrow> u_onInterfacesAdded s w p ifs = (s, [])"
  by (induction ifs) auto

lemma onInterfacesRemoved_loop_other:
  "''org.bluez.Device1'' \<notin> set ifs \<Longrightarrow> u_onInterfacesRemoved_loop s p ifs = (s, [])"
  by (induction ifs) auto

lemma onInterfacesAdded_lookup:
  "map_of (u_devices (fst (u_onInterfacesAdded s w p ifs))) q =
     (if q = p \<and> map_of (u_devices s) p = None \<and> ''org.bluez.Device1'' \<in> set ifs
      then (case proxy_init w p of
              Inl e \<Rightarrow> None
            | Inr proxy \<Rightarrow> Some (proxy\<lparr>g_object_path := p, u_muxer := None,
                                        uu_deviceChangedId := Some (handler_id w)\<rparr>))
      else map_of (u_devices s) q)"
proof (induction ifs)
  case Nil
  show ?case by simp
next
  case (Cons i ifs)
  show ?case
  proof (cases "i = ''org.bluez.Device1'' \<and> map_of (u_devices s) p = None")
    case False
    then show ?thesis using Cons.IH by auto
  next
    case True
    show ?thesis
    proof (cases "proxy_init w p")
      case (Inl e)
      with True Cons.IH show ?thesis
        by (simp add: u_getDeviceProxy_def split_beta)
    next
      case (Inr proxy)
      with True show ?thesis
        by (simp add: u_getDeviceProxy_def Let_def onInterfacesAdded_tracked update_conv')
    qed
  qed
qed

lemma onInterfacesRemoved_loop_lookup:
  "map_of (u_devices (fst (u_onInterfacesRemoved_loop s p ifs))) q =
     (if q = p \<and> ''org.bluez.Device1'' \<in> set ifs then None else map_of (u_devices s) q)"
proof (induction ifs arbitrary: s q)
  case Nil
  show ?case by simp
next
  case (Cons i ifs)
  show ?case
    by (simp add: Cons.IH Let_def split_beta RequestDisconnection_def delete_conv' update_conv'
          split: option.splits)
qed


lemma RequestDisconnection_keys:
  "map fst (u_devices (fst (RequestDisconnection s p))) = map fst (u_devices s)"
  by (auto simp: RequestDisconnection_def split_beta update_keys map_of_eq_None_iff
        split: option.splits)

lemma PropertiesChanged_keys:
  "map fst (u_devices (fst (step s w (PropertiesChanged p ch)))) = map fst (u_devices s)"
proof (cases "map_of (u_devices s) p")
  case None
  then show ?thesis by simp
next
  case (Some d)
  then have "p \<in> fst ` set (u_devices s)"
    by (auto dest: map_of_SomeD intro: rev_image_eqI)
  with Some show ?thesis
    by (simp add: Let_def u_onDeviceChanged_def connectDevice_state RequestDisconnection_keys
          update_keys split: option.splits)
qed

text \<open>
  The mirror while no handler is overlapped by another. Adding an object path that is
  already tracked changes nothing and has no effect; removing one that is not tracked
  changes nothing; a removal with an empty interface list returns at once. Otherwise an
  add that names the device interface stores the new proxy under its path (when the proxy
  could be made) and a removal that names it deletes that path, every other key keeping
  its value; a property change leaves the keys as they are; and no key and no path of the
  \<open>devices\<close> view occurs twice in a state that a sequence of events reaches from the
  initial one.
\<close>

lemma mirror_reflects_events:
  "(map_of (u_devices s) object_path \<noteq> None \<longrightarrow>
      u_onInterfacesAdded s w object_path interfaces = (s, []))
   \<and> (map_of (u_devices s) object_path = None \<longrightarrow>
        u_onInterfacesRemoved s object_path interfaces = (s, []))
   \<and> u_onInterfacesRemoved s object_path [] = (s, [])
   \<and> map_of (u_devices (fst (u_onInterfacesAdded s w object_path interfaces))) q =
       (if q = object_path \<and> map_of (u_devices s) object_path = None
           \<and> ''org.bluez.Device1'' \<in> set interfaces
        then (case proxy_init w object_path of
                Inl e \<Rightarrow> None
              | Inr proxy \<Rightarrow>
                  Some (proxy\<lparr>g_object_path := object_path, u_muxer := None,
                               uu_deviceChangedId := Some (handler_id w)\<rparr>))
        else map_of (u_devices s) q)
   \<and> map_of (u_devices (fst (u_onInterfacesRemoved s object_path interfaces))) q =
       (if q = object_path \<and> ''org.bluez.Device1'' \<in> set interfaces then None
        else map_of (u_devices s) q)
   \<and> map fst (u_devices (fst (step s w (PropertiesChanged object_path ch))))
       = map fst (u_devices s)
   \<and> distinct (map fst (u_devices (fst (run (init owner) evs))))
   \<and> distinct (map g_object_path (devices (fst (run (init owner) evs))))"
proof -
  have start: "keyed_by_path (u_devices (init owner))"
    by (simp add: init_def keyed_by_path_def)
  have reach: "keyed_by_path (u_devices (fst (run (init owner) evs)))"
    using start by (rule run_keyed)
  have removed:
    "map_of (u_devices (fst (u_onInterfacesRemoved s object_path interfaces))) q =
       (if q = object_path \<and> ''org.bluez.Device1'' \<in> set interfaces then None
        else map_of (u_devices s) q)"
    by (cases interfaces)
       (simp_all add: u_onInterfacesRemoved_def onInterfacesRemoved_loop_lookup
          del: u_onInterfacesRemoved_loop.simps)
  show ?thesis
    using reach removed
    by (simp add: onInterfacesAdded_tracked onInterfacesRemoved_loop_untracked
          u_onInterfacesRemoved_def onInterfacesAdded_lookup PropertiesChanged_keys
          devices_distinct keyed_by_path_def
          del: step.simps)
qed

lemma mirror_reflects_events_example:
  "map_of (u_devices tracking) ''/org/bluez/hci0/dev_1'' \<noteq> None
   \<and> u_onInterfacesAdded tracking calm ''/org/bluez/hci0/dev_1'' [''org.bluez.Device1'']
       = (tracking, [])
   \<and> map_of (u_devices bound) ''/org/bluez/hci0/dev_1'' = None
   \<and> u_onInterfacesRemoved bound ''/org/bluez/hci0/dev_1'' [''org.bluez.Device1'']
       = (bound, [])"
proof -
  have tracked: "map_of (u_devices tracking) ''/org/bluez/hci0/dev_1'' \<noteq> None"
    by (simp add: tracking_def bound_def)
  have untracked: "map_of (u_devices bound) ''/org/bluez/hci0/dev_1'' = None"
    by (simp add: bound_def)
  from tracked
    mirror_reflects_events [of tracking "''/org/bluez/hci0/dev_1''" calm "[''org.bluez.Device1'']"]
  have added: "u_onInterfacesAdded tracking calm ''/org/bluez/hci0/dev_1'' [''org.bluez.Device1'']
       = (tracking, [])"
    by blast
  from untracked
    mirror_reflects_events [of bound "''/org/bluez/hci0/dev_1''" calm "[''org.bluez.Device1'']"]
  have removed: "u_onInterfacesRemoved bound ''/org/bluez/hci0/dev_1'' [''org.bluez.Device1'']
       = (bound, [])"
    by blast
  from tracked untracked added removed show ?thesis
    by blast
qed

subsection \<open>The mirror across the suspension\<close>

text \<open>
  The two parts of \<open>_onInterfacesAdded\<close> make up the whole: up to the \<open>await\<close>,
  then what follows it, then the rest of the loop.
\<close>

lemma onInterfacesAdded_split:
  "u_onInterfacesAdded s w p ifs =
     (case u_onInterfacesAdded_until_await s p ifs of
        (es0, None) \<Rightarrow> (s, es0)
      | (es0, Some rest) \<Rightarrow>
          (let (s1, es1) = u_onInterfacesAdded_after_await s w p;
               (s2, es2) = u_onInterfacesAdded s1 w p rest
           in (s2, es0 @ es1 @ es2)))"
proof (induction ifs)
  case Nil
  show ?case by simp
next
  case (Cons i ifs)
  show ?case
  proof (cases "i = ''org.bluez.Device1'' \<and> map_of (u_devices s) p = None")
    case False
    then show ?thesis using Cons.IH by auto
  next
    case True
    then show ?thesis
      by (cases "proxy_init w p")
         (simp_all add: u_getDeviceProxy_def u_onInterfacesAdded_after_await_def Let_def
            split_beta)
  qed
qed

text \<open>
  C6. The guard against a second add is tested before the \<open>await\<close> and the proxy is
  stored after it. One after the other, the add and the removal of the phone leave the
  map empty. When the removal arrives while the add waits for its proxy, the removal
  finds nothing to remove and the add then stores the proxy: the map and the
  \<open>devices\<close> view hold a device whose last event was its removal. When a second add
  for the path arrives while the first waits, both have passed the guard: two proxies
  are made and two handlers connected for one device, \<open>devices\<close> is notified twice,
  and the map keeps the second proxy while the handler of the first stays connected.
\<close>

theorem overlapped_add_and_remove:
  "u_devices (fst (run bound
       [(calm, GSignal ''InterfacesAdded'' ''/org/bluez/hci0/dev_1'' [''org.bluez.Device1'']),
        (calm, GSignal ''InterfacesRemoved'' ''/org/bluez/hci0/dev_1'' [''org.bluez.Device1''])]))
     = []
   \<and> u_onInterfacesAdded_until_await bound ''/org/bluez/hci0/dev_1'' [''org.bluez.Device1'']
       = ([NewDBusProxy ''/org/bluez/hci0/dev_1''], Some [])
   \<and> run bound
       [(calm, InterfacesAddedStart ''/org/bluez/hci0/dev_1'' [''org.bluez.Device1'']),
        (calm, GSignal ''InterfacesRemoved'' ''/org/bluez/hci0/dev_1'' [''org.bluez.Device1'']),
        (calm, InterfacesAddedResume ''/org/bluez/hci0/dev_1'' [])]
       = (tracking,
          [NewDBusProxy ''/org/bluez/hci0/dev_1'',
           ProxyConnect ''/org/bluez/hci0/dev_1'' 2, Notify ''devices''])
   \<and> devices tracking = [phone]
   \<and> run bound
       [(calm, InterfacesAddedStart ''/org/bluez/hci0/dev_1'' [''org.bluez.Device1'']),
        (calm, InterfacesAddedStart ''/org/bluez/hci0/dev_1'' [''org.bluez.Device1'']),
        (calm, InterfacesAddedResume ''/org/bluez/hci0/dev_1'' []),
        (calm\<lparr>handler_id := 3\<rparr>, InterfacesAddedResume ''/org/bluez/hci0/dev_1'' [])]
       = (bound\<lparr>u_devices :=
                   [(''/org/bluez/hci0/dev_1'', phone\<lparr>uu_deviceChangedId := Some 3\<rparr>)]\<rparr>,
          [NewDBusProxy ''/org/bluez/hci0/dev_1'',
           NewDBusProxy ''/org/bluez/hci0/dev_1'',
           ProxyConnect ''/org/bluez/hci0/dev_1'' 2, Notify ''devices'',
           ProxyConnect ''/org/bluez/hci0/dev_1'' 3, Notify ''devices''])"
  by (simp add: vfunc_g_signal_def name_owner_guard_def js_not_def u_getDeviceProxy_def
        u_onInterfacesRemoved_def RequestDisconnection_def close_def
        u_onInterfacesAdded_resume_def u_onInterfacesAdded_after_await_def devices_def
        SERVICE_UUID_def tracking_def bound_def calm_def phone_def)

subsection \<open>Property changes\<close>


lemma close_no_connect: "filter is_ConnectProfile (snd (close d)) = []"
  by (simp add: close_def split: option.splits)

lemma RequestDisconnection_no_connect:
  "filter is_ConnectProfile (snd (RequestDisconnection s p)) = []"
  by (simp add: RequestDisconnection_def close_no_connect split_beta split: option.splits)

lemma RequestDisconnection_closes:
  "map_of (u_devices s) p = Some d \<Longrightarrow> u_muxer d = Some m \<Longrightarrow>
     MuxerClose m \<in> set (snd (RequestDisconnection s p))
     \<and> map_of (u_devices (fst (RequestDisconnection s p))) p = Some (d\<lparr>u_muxer := None\<rparr>)"
  by (simp add: RequestDisconnection_def close_def update_conv')

text \<open>
  C5, as the code has it. A change set that holds \<open>Connected = true\<close> calls
  \<open>_connectDevice\<close> for the device; one that holds \<open>Connected = false\<close> calls
  \<open>RequestDisconnection\<close> for its path and issues no connect request, whatever it says
  about \<open>ServicesResolved\<close>; one without \<open>Connected\<close> in which \<open>ServicesResolved\<close> is
  true calls the same \<open>_connectDevice\<close>; any other change set does nothing.
\<close>

theorem property_change_dispatch:
  "(changed_Connected ch = Some True \<longrightarrow>
      u_onDeviceChanged s w proxy ch = u_connectDevice s w proxy)
   \<and> (changed_Connected ch = Some False \<longrightarrow>
        u_onDeviceChanged s w proxy ch = RequestDisconnection s (g_object_path proxy)
        \<and> filter is_ConnectProfile (snd (u_onDeviceChanged s w proxy ch)) = [])
   \<and> (changed_Connected ch = None \<and> changed_ServicesResolved ch = Some True \<longrightarrow>
        u_onDeviceChanged s w proxy ch = u_connectDevice s w proxy)
   \<and> (changed_Connected ch = None \<and> changed_ServicesResolved ch \<noteq> Some True \<longrightarrow>
        u_onDeviceChanged s w proxy ch = (s, []))"
  by (simp add: u_onDeviceChanged_def RequestDisconnection_no_connect)

theorem property_change_dispatch_witness:
  "u_onDeviceChanged tracking calm phone
     \<lparr>changed_Connected = Some True, changed_ServicesResolved = None,
        changed_Paired = None, changed_UUIDs = None\<rparr>
     = (tracking, [Debug ''requesting bluetooth connection phone'',
                   ConnectProfile ''/org/bluez/hci0/dev_1''
                     ''185f3df4-3268-4e3f-9fca-d4d5059915bd''])
   \<and> u_onDeviceChanged tracking calm phone
       \<lparr>changed_Connected = None, changed_ServicesResolved = Some True,
          changed_Paired = None, changed_UUIDs = None\<rparr>
       = (tracking, [Debug ''requesting bluetooth connection phone'',
                     ConnectProfile ''/org/bluez/hci0/dev_1''
                       ''185f3df4-3268-4e3f-9fca-d4d5059915bd''])
   \<and> u_onDeviceChanged tracking calm phone
       \<lparr>changed_Connected = Some False, changed_ServicesResolved = None,
          changed_Paired = None, changed_UUIDs = None\<rparr>
       = (tracking, [Debug ''/org/bluez/hci0/dev_1''])
   \<and> u_onDeviceChanged tracking calm phone
       \<lparr>changed_Connected = None, changed_ServicesResolved = Some False,
          changed_Paired = Some True, changed_UUIDs = None\<rparr>
       = (tracking, [])"
proof -
  have connect:
    "u_connectDevice tracking calm phone
       = (tracking, [Debug ''requesting bluetooth connection phone'',
                     ConnectProfile ''/org/bluez/hci0/dev_1''
                       ''185f3df4-3268-4e3f-9fca-d4d5059915bd''])"
    by (simp add: u_connectDevice_def phone_def SERVICE_UUID_def)
  have disconnect:
    "RequestDisconnection tracking (g_object_path phone)
       = (tracking, [Debug ''/org/bluez/hci0/dev_1''])"
    by (simp add: RequestDisconnection_def close_def phone_def tracking_def bound_def)
  show ?thesis
    using connect disconnect
      property_change_dispatch [of "\<lparr>changed_Connected = Some True,
        changed_ServicesResolved = None, changed_Paired = None, changed_UUIDs = None\<rparr>"
        tracking calm phone]
      property_change_dispatch [of "\<lparr>changed_Connected = None,
        changed_ServicesResolved = Some True, changed_Paired = None, changed_UUIDs = None\<rparr>"
        tracking calm phone]
      property_change_dispatch [of "\<lparr>changed_Connected = Some False,
        changed_ServicesResolved = None, changed_Paired = None, changed_UUIDs = None\<rparr>"
        tracking calm phone]
      property_change_dispatch [of "\<lparr>changed_Connected = None,
        changed_ServicesResolved = Some False, changed_Paired = Some True,
        changed_UUIDs = None\<rparr>"
        tracking calm phone]
    by simp
qed

text \<open>
  C5 as claimed fails for a change set that reports \<open>ServicesResolved = true\<close> together
  with \<open>Connected = false\<close>: the \<open>else if\<close> is not reached, so the tracked, paired,
  channel-less phone gets a disconnection request and no connection attempt.
\<close>

theorem services_resolved_with_disconnect_counterexample:
  "changed_ServicesResolved
     \<lparr>changed_Connected = Some False, changed_ServicesResolved = Some True,
        changed_Paired = None, changed_UUIDs = None\<rparr> = Some True
   \<and> map_of (u_devices tracking) (g_object_path phone) = Some phone
   \<and> u_onDeviceChanged tracking calm phone
       \<lparr>changed_Connected = Some False, changed_ServicesResolved = Some True,
          changed_Paired = None, changed_UUIDs = None\<rparr>
       = (tracking, [Debug ''/org/bluez/hci0/dev_1''])
   \<and> u_connectDevice tracking calm phone
       = (tracking, [Debug ''requesting bluetooth connection phone'',
                     ConnectProfile ''/org/bluez/hci0/dev_1''
                       ''185f3df4-3268-4e3f-9fca-d4d5059915bd''])
   \<and> u_onDeviceChanged tracking calm phone
       \<lparr>changed_Connected = Some False, changed_ServicesResolved = Some True,
          changed_Paired = None, changed_UUIDs = None\<rparr>
       \<noteq> u_connectDevice tracking calm phone"
  by (simp add: u_onDeviceChanged_def u_connectDevice_def RequestDisconnection_def close_def
        phone_def tracking_def bound_def SERVICE_UUID_def)

subsection \<open>Binding to the daemon\<close>

text \<open>A registration request is issued only by the start and by a name-owner change to an owner.\<close>


lemma step_registers_only_on_bind:
  assumes "ev \<noteq> InitAsync" and "\<forall>owner. ev \<noteq> NameOwnerChanged (Some owner)"
  shows "filter is_RegisterProfile (snd (step s w ev)) = []"
proof (cases ev)
  case (NameOwnerChanged owner)
  with assms have "owner = None" by (cases owner) simp_all
  with NameOwnerChanged show ?thesis by (simp add: onNameOwnerChanged_register)
next
  case (PropertiesChanged p ch)
  then show ?thesis
    by (simp add: onDeviceChanged_no_register Let_def split: option.splits)
qed (use assms in \<open>simp_all add: vfunc_g_signal_no_register NewConnection_no_register
       RequestDisconnection_no_register Release_def broadcast_no_register destroy_no_register
       until_await_no_register resume_no_register split_beta\<close>)

text \<open>
  The enumeration loop is the left fold of \<open>_onInterfacesAdded\<close> over the managed
  objects, each call starting from the map the one before has left; and afterwards a
  path is tracked exactly if it was tracked before or some managed object of that path
  names the device interface and its proxy could be made.
\<close>

lemma add_current_devices_foldl:
  "foldl (\<lambda>(st, es) (object_path, object).
            (fst (u_onInterfacesAdded st w object_path object),
             es @ snd (u_onInterfacesAdded st w object_path object)))
     (s0, es0) objects
   = (fst (add_current_devices s0 w objects), es0 @ snd (add_current_devices s0 w objects))"
proof (induction objects arbitrary: s0 es0)
  case Nil
  show ?case by simp
next
  case (Cons a objects)
  show ?case
    using Cons.IH by (cases a) (simp add: Let_def split_beta)
qed

lemma add_current_devices_lookup:
  "map_of (u_devices (fst (add_current_devices s w objects))) q =
     (if map_of (u_devices s) q = None
         \<and> (\<exists>object. (q, object) \<in> set objects \<and> ''org.bluez.Device1'' \<in> set object)
      then (case proxy_init w q of
              Inl e \<Rightarrow> None
            | Inr proxy \<Rightarrow> Some (proxy\<lparr>g_object_path := q, u_muxer := None,
                                        uu_deviceChangedId := Some (handler_id w)\<rparr>))
      else map_of (u_devices s) q)"
proof (induction objects arbitrary: s)
  case Nil
  show ?case by simp
next
  case (Cons a objects)
  obtain p ifs where a: "a = (p, ifs)" by (cases a)
  let ?s1 = "fst (u_onInterfacesAdded s w p ifs)"
  have unfold: "fst (add_current_devices s w (a # objects))
      = fst (add_current_devices ?s1 w objects)"
    by (simp add: a Let_def split_beta)
  show ?case
    unfolding unfold Cons.IH [of ?s1] onInterfacesAdded_lookup
    by (cases "proxy_init w q") (auto simp: a)
qed

text \<open>
  C4, as the code has it. When the name owner becomes non-null (with the profile manager
  and the exported profile in place), the handler first issues one \<open>RegisterProfile\<close>
  request. If the request fails, the error is logged, the state is unchanged and nothing
  is enumerated. Only if it succeeds does the handler call \<open>GetManagedObjects\<close>; if
  that fails the error is logged, and otherwise every managed object, in order, is given
  to \<open>_onInterfacesAdded\<close>, each on the map its predecessors have left, so that
  afterwards every managed path that names the device interface and whose proxy could be
  made is tracked with a fresh proxy, and every other path is as before. The handler
  issues exactly one registration request, and no event other than the start and a later
  change to an owner issues another.
\<close>

theorem bind_registers_then_enumerates:
  assumes "g_name_owner s = Some owner"
    and "u_profileManager s = Some manager"
    and "u_profile s = Some path"
  shows "(RegisterProfile_result w = Some e \<longrightarrow>
            u_onNameOwnerChanged s w =
              (s, [RegisterProfile path SERVICE_UUID (SERVICE_PROFILE (SERVICE_RECORD w)),
                   LogError e]))
         \<and> (RegisterProfile_result w = None \<and> GetManagedObjects_result w = Inl e \<longrightarrow>
              u_onNameOwnerChanged s w =
                (s, [RegisterProfile path SERVICE_UUID (SERVICE_PROFILE (SERVICE_RECORD w)),
                     GetManagedObjects, LogError e]))
         \<and> (RegisterProfile_result w = None \<and> GetManagedObjects_result w = Inr objects \<longrightarrow>
              u_onNameOwnerChanged s w =
                (fst (foldl (\<lambda>(st, es) (object_path, object).
                               (fst (u_onInterfacesAdded st w object_path object),
                                es @ snd (u_onInterfacesAdded st w object_path object)))
                        (s, []) objects),
                 RegisterProfile path SERVICE_UUID (SERVICE_PROFILE (SERVICE_RECORD w))
                   # GetManagedObjects
                   # snd (foldl (\<lambda>(st, es) (object_path, object).
                                   (fst (u_onInterfacesAdded st w object_path object),
                                    es @ snd (u_onInterfacesAdded st w object_path object)))
                            (s, []) objects))
              \<and> map_of (u_devices (fst (u_onNameOwnerChanged s w))) q =
                  (if map_of (u_devices s) q = None
                      \<and> (\<exists>object. (q, object) \<in> set objects
                                    \<and> ''org.bluez.Device1'' \<in> set object)
                   then (case proxy_init w q of
                           Inl e \<Rightarrow> None
                         | Inr proxy \<Rightarrow>
                             Some (proxy\<lparr>g_object_path := q, u_muxer := None,
                                          uu_deviceChangedId := Some (handler_id w)\<rparr>))
                   else map_of (u_devices s) q))
         \<and> filter is_RegisterProfile (snd (u_onNameOwnerChanged s w)) =
             [RegisterProfile path SERVICE_UUID (SERVICE_PROFILE (SERVICE_RECORD w))]
         \<and> (ev \<noteq> InitAsync \<and> (\<forall>owner'. ev \<noteq> NameOwnerChanged (Some owner')) \<longrightarrow>
              filter is_RegisterProfile (snd (step s' w' ev)) = [])"
proof -
  let ?request = "RegisterProfile path SERVICE_UUID (SERVICE_PROFILE (SERVICE_RECORD w))"
  let ?feed = "\<lambda>(st, es) (object_path, object).
                 (fst (u_onInterfacesAdded st w object_path object),
                  es @ snd (u_onInterfacesAdded st w object_path object))"
  have once: "filter is_RegisterProfile (snd (u_onNameOwnerChanged s w)) = [?request]"
    using assms by (simp add: onNameOwnerChanged_register)
  have quiet: "ev \<noteq> InitAsync \<and> (\<forall>owner'. ev \<noteq> NameOwnerChanged (Some owner')) \<longrightarrow>
      filter is_RegisterProfile (snd (step s' w' ev)) = []"
    using step_registers_only_on_bind [of ev s' w'] by blast
  have rejected: "RegisterProfile_result w = Some e \<longrightarrow>
      u_onNameOwnerChanged s w = (s, [?request, LogError e])"
    using assms by (simp add: u_onNameOwnerChanged_def)
  have unreachable: "RegisterProfile_result w = None \<and> GetManagedObjects_result w = Inl e \<longrightarrow>
      u_onNameOwnerChanged s w = (s, [?request, GetManagedObjects, LogError e])"
    using assms by (simp add: u_onNameOwnerChanged_def)
  have fed: "u_onNameOwnerChanged s w =
      (fst (add_current_devices s w objects),
       ?request # GetManagedObjects # snd (add_current_devices s w objects))"
    if "RegisterProfile_result w = None" and "GetManagedObjects_result w = Inr objects"
    using assms that by (simp add: u_onNameOwnerChanged_def Let_def split_beta)
  have loop: "foldl ?feed (s, []) objects = add_current_devices s w objects"
    using add_current_devices_foldl [of w s "[]" objects] by simp
  have enumerated: "RegisterProfile_result w = None \<and> GetManagedObjects_result w = Inr objects \<longrightarrow>
      u_onNameOwnerChanged s w =
        (fst (foldl ?feed (s, []) objects),
         ?request # GetManagedObjects # snd (foldl ?feed (s, []) objects))
      \<and> map_of (u_devices (fst (u_onNameOwnerChanged s w))) q =
          (if map_of (u_devices s) q = None
              \<and> (\<exists>object. (q, object) \<in> set objects \<and> ''org.bluez.Device1'' \<in> set object)
           then (case proxy_init w q of
                   Inl e \<Rightarrow> None
                 | Inr proxy \<Rightarrow>
                     Some (proxy\<lparr>g_object_path := q, u_muxer := None,
                                  uu_deviceChangedId := Some (handler_id w)\<rparr>))
           else map_of (u_devices s) q)"
  proof (intro impI, elim conjE)
    assume ok: "RegisterProfile_result w = None" "GetManagedObjects_result w = Inr objects"
    show "u_onNameOwnerChanged s w =
        (fst (foldl ?feed (s, []) objects),
         ?request # GetManagedObjects # snd (foldl ?feed (s, []) objects))
      \<and> map_of (u_devices (fst (u_onNameOwnerChanged s w))) q =
          (if map_of (u_devices s) q = None
              \<and> (\<exists>object. (q, object) \<in> set objects \<and> ''org.bluez.Device1'' \<in> set object)
           then (case proxy_init w q of
                   Inl e \<Rightarrow> None
                 | Inr proxy \<Rightarrow>
                     Some (proxy\<lparr>g_object_path := q, u_muxer := None,
                                  uu_deviceChangedId := Some (handler_id w)\<rparr>))
           else map_of (u_devices s) q)"
      unfolding loop fed [OF ok] fst_conv
      by (simp only: add_current_devices_lookup)
  qed
  from rejected unreachable enumerated once quiet show ?thesis by blast
qed

theorem bind_registers_then_enumerates_witness:
  "u_onNameOwnerChanged bound (calm\<lparr>RegisterProfile_result := Some (DBusError ''rejected'')\<rparr>)
     = (bound,
        [RegisterProfile ''/org/gnome/Shell/Extensions/GSConnect/Bluetooth''
           ''185f3df4-3268-4e3f-9fca-d4d5059915bd''
           [(''RequireAuthorization'', VariantB False),
            (''RequireAuthentication'', VariantB True),
            (''ServiceRecord'', VariantS ''<record/>'')],
         LogError (DBusError ''rejected'')])
   \<and> u_onNameOwnerChanged bound (calm\<lparr>GetManagedObjects_result := Inl (DBusError ''gone'')\<rparr>)
     = (bound,
        [RegisterProfile ''/org/gnome/Shell/Extensions/GSConnect/Bluetooth''
           ''185f3df4-3268-4e3f-9fca-d4d5059915bd''
           [(''RequireAuthorization'', VariantB False),
            (''RequireAuthentication'', VariantB True),
            (''ServiceRecord'', VariantS ''<record/>'')],
         GetManagedObjects,
         LogError (DBusError ''gone'')])
   \<and> u_onNameOwnerChanged bound
         (calm\<lparr>GetManagedObjects_result :=
                  Inr [(''/org/bluez/hci0'', [''org.bluez.Adapter1'']),
                       (''/org/bluez/hci0/dev_1'', [''org.bluez.Device1'']),
                       (''/org/bluez/hci0/dev_2'',
                        [''org.bluez.MediaControl1'', ''org.bluez.Device1''])]\<rparr>)
     = (bound\<lparr>u_devices :=
                 [(''/org/bluez/hci0/dev_1'', phone),
                  (''/org/bluez/hci0/dev_2'',
                   phone\<lparr>g_object_path := ''/org/bluez/hci0/dev_2''\<rparr>)]\<rparr>,
        [RegisterProfile ''/org/gnome/Shell/Extensions/GSConnect/Bluetooth''
           ''185f3df4-3268-4e3f-9fca-d4d5059915bd''
           [(''RequireAuthorization'', VariantB False),
            (''RequireAuthentication'', VariantB True),
            (''ServiceRecord'', VariantS ''<record/>'')],
         GetManagedObjects,
         NewDBusProxy ''/org/bluez/hci0/dev_1'',
         ProxyConnect ''/org/bluez/hci0/dev_1'' 2, Notify ''devices'',
         NewDBusProxy ''/org/bluez/hci0/dev_2'',
         ProxyConnect ''/org/bluez/hci0/dev_2'' 2, Notify ''devices''])
   \<and> map_of (u_devices (fst (u_onNameOwnerChanged bound
         (calm\<lparr>GetManagedObjects_result :=
                  Inr [(''/org/bluez/hci0'', [''org.bluez.Adapter1'']),
                       (''/org/bluez/hci0/dev_1'', [''org.bluez.Device1'']),
                       (''/org/bluez/hci0/dev_2'',
                        [''org.bluez.MediaControl1'', ''org.bluez.Device1''])]\<rparr>))))
         ''/org/bluez/hci0/dev_2''
       = Some (phone\<lparr>g_object_path := ''/org/bluez/hci0/dev_2''\<rparr>)
   \<and> filter is_RegisterProfile (snd (u_onNameOwnerChanged bound calm))
       = [RegisterProfile ''/org/gnome/Shell/Extensions/GSConnect/Bluetooth''
            ''185f3df4-3268-4e3f-9fca-d4d5059915bd''
            [(''RequireAuthorization'', VariantB False),
             (''RequireAuthentication'', VariantB True),
             (''ServiceRecord'', VariantS ''<record/>'')]]
   \<and> filter is_RegisterProfile
         (snd (step (fst (u_onNameOwnerChanged bound calm)) calm
                 (CallBroadcast ''/org/bluez/hci0/dev_1''))) = []"
proof -
  let ?rejecting = "calm\<lparr>RegisterProfile_result := Some (DBusError ''rejected'')\<rparr>"
  let ?gone = "calm\<lparr>GetManagedObjects_result := Inl (DBusError ''gone'')\<rparr>"
  let ?objects = "[(''/org/bluez/hci0'', [''org.bluez.Adapter1'']),
                   (''/org/bluez/hci0/dev_1'', [''org.bluez.Device1'']),
                   (''/org/bluez/hci0/dev_2'',
                    [''org.bluez.MediaControl1'', ''org.bluez.Device1''])]"
  let ?managing = "calm\<lparr>GetManagedObjects_result := Inr ?objects\<rparr>"
  let ?request = "RegisterProfile ''/org/gnome/Shell/Extensions/GSConnect/Bluetooth''
           ''185f3df4-3268-4e3f-9fca-d4d5059915bd''
           [(''RequireAuthorization'', VariantB False),
            (''RequireAuthentication'', VariantB True),
            (''ServiceRecord'', VariantS ''<record/>'')]"
  let ?feed = "\<lambda>(st, es) (object_path, object).
                 (fst (u_onInterfacesAdded st ?managing object_path object),
                  es @ snd (u_onInterfacesAdded st ?managing object_path object))"
  let ?both = "bound\<lparr>u_devices :=
                 [(''/org/bluez/hci0/dev_1'', phone),
                  (''/org/bluez/hci0/dev_2'',
                   phone\<lparr>g_object_path := ''/org/bluez/hci0/dev_2''\<rparr>)]\<rparr>"
  have owner: "g_name_owner bound = Some '':1.5''"
    and manager: "u_profileManager bound = Some ''/org/bluez''"
    and profile: "u_profile bound = Some ''/org/gnome/Shell/Extensions/GSConnect/Bluetooth''"
    by (simp_all add: bound_def)
  have sdp: "SERVICE_RECORD calm = ''<record/>''" "SERVICE_RECORD ?rejecting = ''<record/>''"
    "SERVICE_RECORD ?gone = ''<record/>''" "SERVICE_RECORD ?managing = ''<record/>''"
    by (simp_all add: calm_def)
  have failing: "RegisterProfile_result ?rejecting = Some (DBusError ''rejected'')"
    by simp
  have unreachable: "RegisterProfile_result ?gone = None
      \<and> GetManagedObjects_result ?gone = Inl (DBusError ''gone'')"
    by (simp add: calm_def)
  have managed: "RegisterProfile_result ?managing = None
      \<and> GetManagedObjects_result ?managing = Inr ?objects"
    by (simp add: calm_def)
  have other: "CallBroadcast ''/org/bluez/hci0/dev_1'' \<noteq> InitAsync
      \<and> (\<forall>owner'. CallBroadcast ''/org/bluez/hci0/dev_1'' \<noteq> NameOwnerChanged (Some owner'))"
    by simp
  have fed: "foldl ?feed (bound, []) ?objects
      = (?both, [NewDBusProxy ''/org/bluez/hci0/dev_1'',
                 ProxyConnect ''/org/bluez/hci0/dev_1'' 2, Notify ''devices'',
                 NewDBusProxy ''/org/bluez/hci0/dev_2'',
                 ProxyConnect ''/org/bluez/hci0/dev_2'' 2, Notify ''devices''])"
    by (simp add: u_getDeviceProxy_def bound_def calm_def phone_def)
  have second_device: "map_of (u_devices ?both) ''/org/bluez/hci0/dev_2''
      = Some (phone\<lparr>g_object_path := ''/org/bluez/hci0/dev_2''\<rparr>)"
    by simp
  from failing
    bind_registers_then_enumerates [OF owner manager profile,
      where w = ?rejecting and e = "DBusError ''rejected''"]
  have first: "u_onNameOwnerChanged bound ?rejecting
     = (bound, [?request, LogError (DBusError ''rejected'')])"
    by (simp add: sdp SERVICE_UUID_def SERVICE_PROFILE_def)
  from unreachable
    bind_registers_then_enumerates [OF owner manager profile,
      where w = ?gone and e = "DBusError ''gone''"]
  have second: "u_onNameOwnerChanged bound ?gone
     = (bound, [?request, GetManagedObjects, LogError (DBusError ''gone'')])"
    by (simp add: sdp SERVICE_UUID_def SERVICE_PROFILE_def)
  from managed
    bind_registers_then_enumerates [OF owner manager profile,
      where w = ?managing and objects = ?objects]
  have "u_onNameOwnerChanged bound ?managing
     = (fst (foldl ?feed (bound, []) ?objects),
        RegisterProfile ''/org/gnome/Shell/Extensions/GSConnect/Bluetooth'' SERVICE_UUID
          (SERVICE_PROFILE (SERVICE_RECORD ?managing))
          # GetManagedObjects # snd (foldl ?feed (bound, []) ?objects))"
    by blast
  then have third: "u_onNameOwnerChanged bound ?managing
     = (?both, [?request, GetManagedObjects,
                NewDBusProxy ''/org/bluez/hci0/dev_1'',
                ProxyConnect ''/org/bluez/hci0/dev_1'' 2, Notify ''devices'',
                NewDBusProxy ''/org/bluez/hci0/dev_2'',
                ProxyConnect ''/org/bluez/hci0/dev_2'' 2, Notify ''devices''])"
    by (simp only: fed sdp fst_conv snd_conv) (simp add: SERVICE_UUID_def SERVICE_PROFILE_def)
  from bind_registers_then_enumerates [OF owner manager profile, where w = calm]
  have fourth: "filter is_RegisterProfile (snd (u_onNameOwnerChanged bound calm)) = [?request]"
    by (simp add: sdp SERVICE_UUID_def SERVICE_PROFILE_def)
  from other
    bind_registers_then_enumerates [OF owner manager profile,
      where ev = "CallBroadcast ''/org/bluez/hci0/dev_1''"
        and s' = "fst (u_onNameOwnerChanged bound calm)" and w' = calm]
  have fifth: "filter is_RegisterProfile
         (snd (step (fst (u_onNameOwnerChanged bound calm)) calm
                 (CallBroadcast ''/org/bluez/hci0/dev_1''))) = []"
    by blast
  from first second third fourth fifth second_device show ?thesis
    by (simp del: step.simps)
qed

text \<open>
  C4 as claimed fails: registration comes before enumeration, not after it. With a
  daemon that manages the phone and rejects the registration, the handler logs the error
  and never asks for the managed objects; with a daemon that accepts, the request
  precedes the enumeration in the trace.
\<close>

theorem bind_enumerates_first_counterexample:
  "u_onNameOwnerChanged bound (calm\<lparr>RegisterProfile_result := Some (DBusError ''rejected'')\<rparr>)
     = (bound,
        [RegisterProfile ''/org/gnome/Shell/Extensions/GSConnect/Bluetooth''
           ''185f3df4-3268-4e3f-9fca-d4d5059915bd''
           [(''RequireAuthorization'', VariantB False),
            (''RequireAuthentication'', VariantB True),
            (''ServiceRecord'', VariantS ''<record/>'')],
         LogError (DBusError ''rejected'')])
   \<and> GetManagedObjects_result (calm\<lparr>RegisterProfile_result := Some (DBusError ''rejected'')\<rparr>)
       = Inr [(''/org/bluez/hci0/dev_1'', [''org.bluez.Device1''])]
   \<and> snd (u_onNameOwnerChanged bound calm)
       = [RegisterProfile ''/org/gnome/Shell/Extensions/GSConnect/Bluetooth''
            ''185f3df4-3268-4e3f-9fca-d4d5059915bd''
            [(''RequireAuthorization'', VariantB False),
             (''RequireAuthentication'', VariantB True),
             (''ServiceRecord'', VariantS ''<record/>'')],
          GetManagedObjects,
          NewDBusProxy ''/org/bluez/hci0/dev_1'',
          ProxyConnect ''/org/bluez/hci0/dev_1'' 2,
          Notify ''devices'']"
  by (simp add: u_onNameOwnerChanged_def u_getDeviceProxy_def bound_def calm_def phone_def
        SERVICE_UUID_def SERVICE_PROFILE_def)

subsection \<open>Inbound connections\<close>





subsection \<open>One channel for a device\<close>

text \<open>
  The guard of \<open>_connectDevice\<close>: on a proxy that holds a channel, the method changes
  nothing and sends no \<open>ConnectProfile\<close>; \<open>broadcast\<close> inherits this.
\<close>

lemma connectDevice_with_channel_is_noop:
  "u_muxer bludev = Some m \<Longrightarrow>
     fst (u_connectDevice s w bludev) = s
     \<and> filter is_ConnectProfile (snd (u_connectDevice s w bludev)) = []"
  by (simp add: u_connectDevice_def)

lemma broadcast_with_channel_is_noop:
  "map_of (u_devices s) p = Some bludev \<Longrightarrow> u_muxer bludev = Some m \<Longrightarrow>
     fst (broadcast s w p) = s \<and> filter is_ConnectProfile (snd (broadcast s w p)) = []"
  by (simp add: broadcast_def u_connectDevice_def)

text \<open>
  The slot is filled by \<open>NewConnection\<close> alone, so the guard does not see an attempt
  that is under way: two property changes in a row, before any inbound connection, send
  two connect requests for the phone.
\<close>

lemma attempts_before_the_channel_exists:
  "filter is_ConnectProfile (snd (run tracking
     [(calm, PropertiesChanged ''/org/bluez/hci0/dev_1''
               \<lparr>changed_Connected = Some True, changed_ServicesResolved = None,
                  changed_Paired = None, changed_UUIDs = None\<rparr>),
      (calm, PropertiesChanged ''/org/bluez/hci0/dev_1''
               \<lparr>changed_Connected = None, changed_ServicesResolved = Some True,
                  changed_Paired = None, changed_UUIDs = None\<rparr>)]))
   = [ConnectProfile ''/org/bluez/hci0/dev_1'' ''185f3df4-3268-4e3f-9fca-d4d5059915bd'',
      ConnectProfile ''/org/bluez/hci0/dev_1'' ''185f3df4-3268-4e3f-9fca-d4d5059915bd'']"
  by (simp add: u_onDeviceChanged_def u_connectDevice_def update_properties_def
        tracking_def bound_def phone_def SERVICE_UUID_def)

text \<open>
  C1. The guard is in \<open>_connectDevice\<close> only. \<open>NewConnection\<close> assigns the new
  multiplexer connection to \<open>_muxer\<close> without looking at the one that is there: after
  two inbound connections for the tracked phone the proxy holds the second, the first has
  never been closed, and two connections made for the phone are open. The first stays
  open through a later \<open>RequestDisconnection\<close> and \<open>destroy\<close>, which close what the
  slot holds.
\<close>

theorem second_inbound_connection_leaves_two_channels:
  "map_of (u_devices (fst (run tracking
       [(calm, CallNewConnection ''/org/bluez/hci0/dev_1'' 7),
        (calm, CallNewConnection ''/org/bluez/hci0/dev_1'' 8)]))) ''/org/bluez/hci0/dev_1''
     = Some (phone\<lparr>u_muxer := Some 8\<rparr>)
   \<and> filter is_MuxerClose (snd (run tracking
       [(calm, CallNewConnection ''/org/bluez/hci0/dev_1'' 7),
        (calm, CallNewConnection ''/org/bluez/hci0/dev_1'' 8)])) = []
   \<and> active_muxers ''/org/bluez/hci0/dev_1'' (snd (run tracking
       [(calm, CallNewConnection ''/org/bluez/hci0/dev_1'' 7),
        (calm, CallNewConnection ''/org/bluez/hci0/dev_1'' 8)])) [] = [7, 8]
   \<and> active_muxers ''/org/bluez/hci0/dev_1'' (snd (run tracking
       [(calm, CallNewConnection ''/org/bluez/hci0/dev_1'' 7),
        (calm, CallNewConnection ''/org/bluez/hci0/dev_1'' 8),
        (calm, CallRequestDisconnection ''/org/bluez/hci0/dev_1''),
        (calm, CallDestroy)])) [] = [7]"
  by (simp add: NewConnection_def RequestDisconnection_def destroy_def close_def
        tracking_def bound_def phone_def calm_def)

subsection \<open>An inbound connection for an unknown device\<close>

text \<open>
  Without a proxy for the path, \<open>NewConnection\<close> leaves the state as it is and its
  promise rejects with a \<open>TypeError\<close>; the device manager is not called and nothing is
  attached, but nothing is closed and nothing is logged as a failure either.
\<close>

lemma NewConnection_unknown_device:
  "map_of (u_devices s) object_path = None \<Longrightarrow>
     fst (NewConnection s w object_path fd) = s
     \<and> snd (snd (NewConnection s w object_path fd)) = Rejected TypeError
     \<and> filter is_EnsureDevice (fst (snd (NewConnection s w object_path fd))) = []
     \<and> filter is_Attach (fst (snd (NewConnection s w object_path fd))) = []
     \<and> filter is_MuxerClose (fst (snd (NewConnection s w object_path fd))) = []
     \<and> filter is_log (fst (snd (NewConnection s w object_path fd))) = []"
  by (simp add: NewConnection_def split: option.splits)

text \<open>
  C3. For the phone's path on a service that tracks no device, \<open>NewConnection\<close> wraps
  the descriptor, constructs the multiplexer connection, and rejects with a
  \<open>TypeError\<close>: the trace ends there, with no close of the stream, no warning and no
  error log. The device manager is not called and nothing is attached.
\<close>

theorem unknown_device_connection_rejects:
  "map_of (u_devices bound) ''/org/bluez/hci0/dev_1'' = None
   \<and> NewConnection bound calm ''/org/bluez/hci0/dev_1'' 7
       = (bound,
          [Debug ''/org/bluez/hci0/dev_1'', SocketFromFd 7,
           MuxerNew 7 ''/org/bluez/hci0/dev_1''],
          Rejected TypeError)"
  by (simp add: NewConnection_def bound_def calm_def)

subsection \<open>Losing the daemon\<close>

text \<open>
  When the name owner is lost, \<open>_onNameOwnerChanged\<close> empties a well-formed device
  map, and closes no channel while doing so.
\<close>

lemma remove_all_devices_no_close:
  "filter is_MuxerClose (snd (remove_all_devices s entries)) = []"
  by (induction s entries rule: remove_all_devices.induct)
     (simp_all add: Let_def split_beta)

lemma unbind_no_close:
  "g_name_owner s = None \<Longrightarrow> filter is_MuxerClose (snd (u_onNameOwnerChanged s w)) = []"
  by (simp add: u_onNameOwnerChanged_def remove_all_devices_no_close split_beta
        split: sum.splits)

lemma remove_all_devices_subset:
  "fst ` set (u_devices (fst (remove_all_devices s entries))) \<subseteq> fst ` set (u_devices s)"
proof (induction s entries rule: remove_all_devices.induct)
  case (1 s)
  show ?case by simp
next
  case (2 s key bludev entries)
  show ?case
  proof (cases "map_of (u_devices s) key = None")
    case True
    with 2 show ?thesis by simp
  next
    case False
    with "2.IH"(2) [OF False refl]
    have "fst ` set (u_devices (fst (remove_all_devices
            (s\<lparr>u_devices := AList.delete (g_object_path bludev) (u_devices s)\<rparr>) entries)))
          \<subseteq> fst ` set (AList.delete (g_object_path bludev) (u_devices s))"
      by simp
    also have "\<dots> \<subseteq> fst ` set (u_devices s)"
      by (rule dom_delete_subset)
    finally have "fst ` set (u_devices (fst (remove_all_devices
            (s\<lparr>u_devices := AList.delete (g_object_path bludev) (u_devices s)\<rparr>) entries)))
          \<subseteq> fst ` set (u_devices s)" .
    moreover from False obtain d where "map_of (u_devices s) key = Some d" by auto
    ultimately show ?thesis by (simp add: Let_def split_beta)
  qed
qed

lemma remove_all_devices_removes:
  "list_all (\<lambda>(key, bludev). g_object_path bludev = key) entries \<Longrightarrow>
     k \<in> fst ` set entries \<Longrightarrow>
     k \<notin> fst ` set (u_devices (fst (remove_all_devices s entries)))"
proof (induction s entries rule: remove_all_devices.induct)
  case (1 s)
  then show ?case by simp
next
  case (2 s key bludev entries)
  from "2.prems" have path: "g_object_path bludev = key"
    and rest: "list_all (\<lambda>(key, bludev). g_object_path bludev = key) entries"
    by simp_all
  show ?case
  proof (cases "k \<in> fst ` set entries")
    case True
    show ?thesis
    proof (cases "map_of (u_devices s) key = None")
      case True
      with "2.IH"(1) [OF True rest \<open>k \<in> fst ` set entries\<close>] show ?thesis by simp
    next
      case False
      then obtain d where "map_of (u_devices s) key = Some d" by auto
      with "2.IH"(2) [OF False refl rest \<open>k \<in> fst ` set entries\<close>] show ?thesis
        by (simp add: Let_def split_beta)
    qed
  next
    case False
    with "2.prems"(2) have k: "k = key" by auto
    show ?thesis
    proof (cases "map_of (u_devices s) key = None")
      case True
      then have "key \<notin> fst ` set (u_devices s)"
        by (simp add: map_of_eq_None_iff)
      with remove_all_devices_subset [of s entries] True k show ?thesis
        by auto
    next
      case False
      have "key \<notin> fst ` set (AList.delete key (u_devices s))"
        by (rule delete_notin_dom)
      with remove_all_devices_subset
        [of "s\<lparr>u_devices := AList.delete key (u_devices s)\<rparr>" entries]
      have "key \<notin> fst ` set (u_devices (fst (remove_all_devices
              (s\<lparr>u_devices := AList.delete key (u_devices s)\<rparr>) entries)))"
        by auto
      moreover from False obtain d where "map_of (u_devices s) key = Some d" by auto
      ultimately show ?thesis using k path by (simp add: Let_def split_beta)
    qed
  qed
qed

lemma unbind_clears_devices:
  assumes "keyed_by_path (u_devices s)" and "g_name_owner s = None"
  shows "u_devices (fst (u_onNameOwnerChanged s w)) = []"
proof -
  let ?s' = "fst (remove_all_devices s (u_devices s))"
  have "fst ` set (u_devices ?s') = {}"
  proof -
    have "k \<notin> fst ` set (u_devices ?s')" for k
    proof (cases "k \<in> fst ` set (u_devices s)")
      case True
      with assms(1) remove_all_devices_removes [of "u_devices s" k s] show ?thesis
        by (simp add: keyed_by_path_def)
    next
      case False
      with remove_all_devices_subset [of s "u_devices s"] show ?thesis by auto
    qed
    then have "set (u_devices ?s') = {}" by fastforce
    then show ?thesis by simp
  qed
  then have "u_devices ?s' = []" by simp
  with assms(2) show ?thesis
    by (simp add: u_onNameOwnerChanged_def split_beta)
qed

text \<open>
  C2. The phone has an open channel when the daemon goes away. The handler disconnects
  the proxy's signal handler and deletes the proxy from the map, without the removal
  path of the mirror and without closing the channel: the trace of the unbind holds no
  close. After the daemon is back the phone is tracked again through a new proxy, and the
  channel of the old one is still open, out of reach of the service.
\<close>

theorem unbind_leaves_channel_open:
  "u_devices (fst (run tracking
       [(calm, CallNewConnection ''/org/bluez/hci0/dev_1'' 7),
        (calm, NameOwnerChanged None)])) = []
   \<and> filter is_MuxerClose (snd (run tracking
       [(calm, CallNewConnection ''/org/bluez/hci0/dev_1'' 7),
        (calm, NameOwnerChanged None)])) = []
   \<and> snd (step (fst (NewConnection tracking calm ''/org/bluez/hci0/dev_1'' 7)) calm
            (NameOwnerChanged None))
       = [ProxyDisconnect ''/org/bluez/hci0/dev_1'' (Some 2), GetManagedObjects]
   \<and> active_muxers ''/org/bluez/hci0/dev_1'' (snd (run tracking
       [(calm, CallNewConnection ''/org/bluez/hci0/dev_1'' 7),
        (calm, NameOwnerChanged None),
        (calm, NameOwnerChanged (Some '':1.9''))])) [] = [7]
   \<and> map_of (u_devices (fst (run tracking
       [(calm, CallNewConnection ''/org/bluez/hci0/dev_1'' 7),
        (calm, NameOwnerChanged None),
        (calm, NameOwnerChanged (Some '':1.9''))]))) ''/org/bluez/hci0/dev_1''
       = Some phone"
  by (simp add: NewConnection_def u_onNameOwnerChanged_def u_getDeviceProxy_def
        tracking_def bound_def phone_def calm_def)

subsection \<open>Teardown\<close>

text \<open>
  One call of \<open>destroy\<close> disconnects the name-owner handler, closes the channel of
  every tracked device, destroys the exported profile and destroys and forgets the profile
  manager.
\<close>

lemma closing_clears:
  "list_all (\<lambda>(key, bludev). u_muxer bludev = None)
     (map ((\<lambda>(key, r). (key, fst r)) \<circ> (\<lambda>(key, bludev). (key, close bludev))) al)"
  by (induction al) (auto simp: close_def split: option.splits)

lemma closing_closes:
  "(key, bludev) \<in> set al \<Longrightarrow> u_muxer bludev = Some m \<Longrightarrow>
     MuxerClose m \<in> set (concat (map ((\<lambda>(key, r). snd r) \<circ> (\<lambda>(key, bludev). (key, close bludev))) al))"
  by (induction al) (auto simp: close_def)

lemma destroy_releases:
  "list_all (\<lambda>(key, bludev). u_muxer bludev = None) (u_devices (fst (destroy s)))
   \<and> u_profileManager (fst (destroy s)) = None
   \<and> ServiceDisconnect (u_nameOwnerChangedId s) \<in> set (snd (destroy s))
   \<and> (case u_profile s of None \<Rightarrow> True | Some p \<Rightarrow> ProfileDestroy p \<in> set (snd (destroy s)))
   \<and> (case u_profileManager s of None \<Rightarrow> True
       | Some manager \<Rightarrow> ProfileManagerDestroy manager \<in> set (snd (destroy s)))"
  using closing_clears [of "u_devices s"]
  by (simp add: destroy_def Let_def split: option.splits)

lemma destroy_closes:
  "map_of (u_devices s) p = Some bludev \<Longrightarrow> u_muxer bludev = Some m \<Longrightarrow>
     MuxerClose m \<in> set (snd (destroy s))"
  using closing_closes [of p bludev "u_devices s" m]
  by (auto simp: destroy_def Let_def split: option.splits dest: map_of_SomeD)

text \<open>
  C9. \<open>destroy\<close> sets \<open>_profileManager\<close> to \<open>null\<close> but keeps \<open>_profile\<close>, and
  disconnects the name-owner handler without a test. So a second call closes no channel
  and leaves the profile manager alone, but disconnects the same handler id again and
  destroys the exported profile again.
\<close>

theorem second_destroy_releases_again:
  "snd (destroy (fst (NewConnection tracking calm ''/org/bluez/hci0/dev_1'' 7)))
     = [ServiceDisconnect (Some 1), Debug ''GSConnect: Disconnecting phone'', MuxerClose 7,
        ProfileDestroy ''/org/gnome/Shell/Extensions/GSConnect/Bluetooth'',
        ProfileManagerDestroy ''/org/bluez'']
   \<and> snd (destroy (fst (destroy (fst (NewConnection tracking calm ''/org/bluez/hci0/dev_1'' 7)))))
       = [ServiceDisconnect (Some 1),
          ProfileDestroy ''/org/gnome/Shell/Extensions/GSConnect/Bluetooth'']"
  by (simp add: NewConnection_def destroy_def close_def tracking_def bound_def phone_def
        calm_def)

end
